theory Spec2Isabelle
  imports Main
begin

section \<open>Data model\<close>

text \<open>
  The plot orchestrator of \<^verbatim>\<open>ggplot/ggplot.py\<close>. Python objects live in a store: an
  attribute of a plot object holds the address of a cell, and a cell holds the value of
  the whole object reached through that attribute. The collaborators of the orchestrator
  (facets, layers, scales, panel, guides, theme) are not part of this file of the
  repository; they are parameters of the model, collected in the record \<open>collab\<close>.
  A collaborator is given the values of the cells it can reach through its receiver and
  its arguments, and returns the values these cells hold afterwards, together with its
  result, or raises.
\<close>

type_synonym addr = nat

text \<open>A pandas DataFrame: named columns and rows of cell values.\<close>

record dataframe =
  columns :: "string list"
  rows :: "int list list"

datatype error =
    GgplotError string
  | KeyError string
  | IndexError
  | AttributeError string
  | TypeError
  | ValueError

text \<open>A layer object: its own data (\<open>None\<close> when the layer uses the plot's) and the rest.\<close>

record 'o layer =
  layer_data :: "dataframe option"
  layer_obj :: 'o

datatype 'o val =
    DataFrame dataframe
  | Layers "'o layer list"
  | Object 'o
  | Axes "nat list"
  | Figure
  | NoneVal

text \<open>The sentinel of \<^verbatim>\<open>utils.waiver\<close> against an explicit list of breaks or labels.\<close>

datatype 'a waivable = Waive | Explicit 'a

record panel_range =
  range_x :: "int \<times> int"
  range_y :: "int \<times> int"
  x_breaks :: "int list waivable"
  y_breaks :: "int list waivable"
  x_labels :: "string list waivable"
  y_labels :: "string list waivable"

text \<open>The \<^verbatim>\<open>Panel\<close> object, with the attributes that \<^verbatim>\<open>ggplot.py\<close> reads.\<close>

record 'o panel =
  layout :: dataframe
  x_scales :: "'o list"
  y_scales :: "'o list"
  ranges :: "panel_range list"
  panel_obj :: "'o option"

text \<open>
  What a run does to its surroundings is recorded as a trace of events: one for each call
  of a collaborator, tagged with the place of the call where one collaborator is called
  from several places, and one for each call of the drawing surface.
\<close>

datatype 'o event =
    CloseAll
  | EnterContext
  | ExitContext
  | Deepcopy
  | TrainLayout
  | MapLayout
  | ComputeAesthetics nat
  | AddGroup nat
  | TransformDf nat
  | GetScales string nat
  | TrainPosition nat
  | MapPosition nat
  | CalculateStats
  | MapStatistic nat
  | ScalesAddMissing
  | Reparameterise nat
  | AdjustPosition nat
  | ResetScales
  | NonPositionScales
  | TrainDf nat
  | MapDf nat
  | TrainRanges
  | Subplots int int
  | LayerPlot nat "'o layer" dataframe 'o 'o nat
  | SetXlim nat "int \<times> int"
  | SetYlim nat "int \<times> int"
  | SetXticks nat "int list"
  | SetYticks nat "int list"
  | SetXticklabels nat "string list"
  | SetYticklabels nat "string list"
  | PostPlotCallback nat "(string \<times> string) list" "(string \<times> string) list"
  | GridOff nat string
  | DrawFacetLabel nat string
  | SubplotsAdjust bool
  | ModifyAxis
  | GuidesBuild
  | AddArtist nat "'o val" nat "int \<times> int"
  | Gcf

record 'o world =
  heap :: "addr \<Rightarrow> 'o val"
  nxt :: addr
  trace :: "'o event list"

text \<open>The \<^verbatim>\<open>__dict__\<close> of a plot object, in insertion order.\<close>

type_synonym pdict = "(string \<times> addr) list"

section \<open>Programs over the store\<close>

type_synonym ('o, 'r) prog = "'o world \<Rightarrow> 'o world \<times> (error + 'r)"

definition ret :: "'r \<Rightarrow> ('o, 'r) prog" where
  "ret r w = (w, Inr r)"

definition throw :: "error \<Rightarrow> ('o, 'r) prog" where
  "throw e w = (w, Inl e)"

definition bnd :: "('o, 'a) prog \<Rightarrow> ('a \<Rightarrow> ('o, 'b) prog) \<Rightarrow> ('o, 'b) prog" where
  "bnd m f w = (case m w of (w', Inl e) \<Rightarrow> (w', Inl e) | (w', Inr a) \<Rightarrow> f a w')"

definition emit :: "'o event \<Rightarrow> ('o, unit) prog" where
  "emit e w = (w\<lparr>trace := trace w @ [e]\<rparr>, Inr ())"

definition lift :: "error + 'r \<Rightarrow> ('o, 'r) prog" where
  "lift x w = (w, x)"

definition alloc :: "'o val \<Rightarrow> ('o, addr) prog" where
  "alloc v w = (w\<lparr>heap := (heap w)(nxt w := v), nxt := Suc (nxt w)\<rparr>, Inr (nxt w))"

definition deref :: "addr \<Rightarrow> ('o, 'o val) prog" where
  "deref a w = (w, Inr (heap w a))"

fun write_cells :: "addr list \<Rightarrow> 'o val list \<Rightarrow> (addr \<Rightarrow> 'o val) \<Rightarrow> (addr \<Rightarrow> 'o val)" where
  "write_cells (a # as) (v # vs) h = write_cells as vs (h(a := v))"
| "write_cells _ _ h = h"

text \<open>
  A call of a collaborator: the event, then the collaborator on the values of the cells
  it can reach; what it returns for them is written back.
\<close>

definition invoke ::
  "'o event \<Rightarrow> addr list \<Rightarrow> ('o val list \<Rightarrow> error + ('o val list \<times> 'r)) \<Rightarrow> ('o, 'r) prog" where
  "invoke e as f w =
     (let w1 = w\<lparr>trace := trace w @ [e]\<rparr> in
      case f (map (heap w1) as) of
        Inl err \<Rightarrow> (w1, Inl err)
      | Inr (vs, r) \<Rightarrow> (w1\<lparr>heap := write_cells as vs (heap w1)\<rparr>, Inr r))"

text \<open>Attribute access \<^verbatim>\<open>obj.name\<close>: the address bound to the name, or AttributeError.\<close>

definition attr :: "pdict \<Rightarrow> string \<Rightarrow> ('o, addr) prog" where
  "attr d k = (case map_of d k of None \<Rightarrow> throw (AttributeError k) | Some a \<Rightarrow> ret a)"

definition getattr :: "pdict \<Rightarrow> string \<Rightarrow> ('o, 'o val) prog" where
  "getattr d k = bnd (attr d k) deref"

text \<open>Assignment \<^verbatim>\<open>obj.name = ref\<close> on a \<^verbatim>\<open>__dict__\<close>: rebinds, or appends a new name.\<close>

fun setattr :: "pdict \<Rightarrow> string \<Rightarrow> addr \<Rightarrow> pdict" where
  "setattr [] k a = [(k, a)]"
| "setattr ((k', a') # d) k a = (if k' = k then (k, a) # d else (k', a') # setattr d k a)"

section \<open>Collaborators\<close>

type_synonym ('o, 'a, 'r) call = "'o val list \<Rightarrow> 'a \<Rightarrow> error + ('o val list \<times> 'r)"

record 'o collab =
  aes_env :: "'o val \<Rightarrow> addr option"
  new_facet_null :: "'o"
  make_labels :: "'o val \<Rightarrow> error + 'o"
  new_guides :: "'o"
  new_scales :: "'o"
  new_theme_gray :: "'o"
  new_panel :: "'o panel"
  truth :: "'o \<Rightarrow> bool"
  obj_len :: "'o \<Rightarrow> nat option"
  train_layout :: "('o, 'o val list, dataframe) call"
  map_layout :: "('o, dataframe \<times> dataframe option list \<times> 'o val, dataframe list) call"
  compute_aesthetics :: "('o, nat \<times> 'o layer \<times> dataframe, dataframe) call"
  add_group :: "('o, dataframe, dataframe) call"
  transform_df :: "('o, dataframe, dataframe) call"
  get_scales :: "('o, string, 'o val) call"
  train_position :: "('o, 'o panel \<times> dataframe list \<times> 'o val \<times> 'o val, 'o panel) call"
  map_position ::
    "('o, 'o panel \<times> dataframe list \<times> 'o val \<times> 'o val, 'o panel \<times> dataframe list) call"
  calculate_stats ::
    "('o, 'o panel \<times> dataframe list \<times> 'o layer list, 'o panel \<times> dataframe list) call"
  map_statistic :: "('o, nat \<times> 'o layer \<times> dataframe, dataframe) call"
  scales_add_missing :: "('o, string list, unit) call"
  reparameterise :: "('o, nat \<times> 'o layer \<times> dataframe, dataframe) call"
  adjust_position :: "('o, nat \<times> 'o layer \<times> dataframe, dataframe) call"
  reset_scales :: "('o, 'o panel, 'o panel) call"
  non_position_scales :: "('o, unit, 'o) call"
  train_df :: "('o, 'o \<times> dataframe, dataframe) call"
  map_df :: "('o, 'o \<times> dataframe, dataframe) call"
  train_ranges :: "('o, 'o panel, 'o panel) call"
  facet_nrow :: "'o val \<Rightarrow> error + int"
  facet_ncol :: "'o val \<Rightarrow> error + int"
  facet_kind :: "'o val \<Rightarrow> string"
  is_scale_discrete :: "'o \<Rightarrow> bool"
  guides_build :: "('o, unit, 'o val) call"
  theme_params :: "'o val \<Rightarrow> string \<Rightarrow> error + string"

section \<open>Python primitives\<close>

text \<open>Truth value of an object, as \<^verbatim>\<open>not obj\<close> and \<^verbatim>\<open>if obj\<close> take it.\<close>

fun truthy :: "'o collab \<Rightarrow> 'o val \<Rightarrow> error + bool" where
  "truthy c (DataFrame f) = Inl ValueError"
| "truthy c (Layers ls) = Inr (ls \<noteq> [])"
| "truthy c (Object ob) = Inr (truth c ob)"
| "truthy c (Axes as) = Inr (as \<noteq> [])"
| "truthy c Figure = Inr True"
| "truthy c NoneVal = Inr False"

text \<open>Iterating over the value of \<^verbatim>\<open>plot.layers\<close>.\<close>

fun as_layers :: "'o val \<Rightarrow> error + 'o layer list" where
  "as_layers (Layers ls) = Inr ls"
| "as_layers _ = Inl TypeError"

text \<open>\<^verbatim>\<open>isinstance(v, pd.DataFrame)\<close>.\<close>

fun is_DataFrame :: "'o val \<Rightarrow> bool" where
  "is_DataFrame (DataFrame f) = True"
| "is_DataFrame _ = False"

text \<open>List indexing \<^verbatim>\<open>xs[i]\<close>: a negative index counts from the end.\<close>

definition py_index :: "'a list \<Rightarrow> int \<Rightarrow> error + 'a" where
  "py_index xs i =
     (if 0 \<le> i \<and> i < int (length xs) then Inr (xs ! nat i)
      else if i < 0 \<and> - int (length xs) \<le> i then Inr (xs ! nat (int (length xs) + i))
      else Inl IndexError)"

text \<open>Position of a column label.\<close>

fun col_index :: "string list \<Rightarrow> string \<Rightarrow> nat option" where
  "col_index [] k = None"
| "col_index (c # cs) k = (if c = k then Some 0 else map_option Suc (col_index cs k))"

text \<open>\<^verbatim>\<open>pnl[name]\<close> on a row of a frame.\<close>

definition row_get :: "string list \<Rightarrow> int list \<Rightarrow> string \<Rightarrow> error + int" where
  "row_get cols r k =
     (case col_index cols k of
        None \<Rightarrow> Inl (KeyError k)
      | Some i \<Rightarrow> if i < length r then Inr (r ! i) else Inl (KeyError k))"

text \<open>\<^verbatim>\<open>d[d[name] == v]\<close>: the rows of a frame whose column \<open>name\<close> holds \<open>v\<close>.\<close>

definition select_eq :: "dataframe \<Rightarrow> string \<Rightarrow> int \<Rightarrow> error + dataframe" where
  "select_eq d k v =
     (case col_index (columns d) k of
        None \<Rightarrow> Inl (KeyError k)
      | Some i \<Rightarrow>
          if \<forall>r \<in> set (rows d). i < length r
          then Inr (d\<lparr>rows := filter (\<lambda>r. r ! i = v) (rows d)\<rparr>)
          else Inl (KeyError k))"

text \<open>A loop over a list that collects the results, the index counted from \<open>i\<close>.\<close>

fun for_each :: "(nat \<Rightarrow> 'a \<Rightarrow> ('o, 'b) prog) \<Rightarrow> nat \<Rightarrow> 'a list \<Rightarrow> ('o, 'b list) prog" where
  "for_each f i [] = ret []"
| "for_each f i (d # ds) =
     bnd (f i d) (\<lambda>r. bnd (for_each f (Suc i) ds) (\<lambda>rs. ret (r # rs)))"

section \<open>The plot object\<close>

text \<open>
  \<^verbatim>\<open>ggplot.__init__(self, mapping, data)\<close>, on the addresses of its two arguments; the
  result is the \<^verbatim>\<open>__dict__\<close> of the new object.
\<close>

definition ggplot_init :: "'o collab \<Rightarrow> addr \<Rightarrow> addr \<Rightarrow> ('o, pdict) prog" where
  "ggplot_init c mapping0 data0 =
     bnd (deref data0) (\<lambda>dv.
     let (mapping, dat) = (if \<not> is_DataFrame dv then (data0, mapping0) else (mapping0, data0)) in
     bnd (alloc (Object (new_facet_null c))) (\<lambda>facet.
     bnd (deref mapping) (\<lambda>mv.
     bnd (lift (make_labels c mv)) (\<lambda>lab.
     bnd (alloc (Object lab)) (\<lambda>labels.
     bnd (alloc (Layers [])) (\<lambda>layers.
     bnd (alloc (Object (new_guides c))) (\<lambda>guides.
     bnd (alloc (Object (new_scales c))) (\<lambda>scales.
     bnd (alloc (Object (new_theme_gray c))) (\<lambda>theme.
     case aes_env c mv of
       None \<Rightarrow> throw (AttributeError ''aes_env'')
     | Some env \<Rightarrow>
         ret [(''data'', dat), (''mapping'', mapping), (''facet'', facet),
              (''labels'', labels), (''layers'', layers), (''guides'', guides),
              (''scales'', scales), (''theme'', theme), (''plot_env'', env)])))))))))"

text \<open>
  \<^verbatim>\<open>copy.deepcopy(x, memo)\<close> on a cell: the copy made before if there is one, a new
  cell with the same value otherwise.
\<close>

definition deepcopy_cell ::
  "addr \<Rightarrow> (addr \<times> addr) list \<Rightarrow> ('o, addr \<times> (addr \<times> addr) list) prog" where
  "deepcopy_cell a memo =
     (case map_of memo a of
        Some a' \<Rightarrow> ret (a', memo)
      | None \<Rightarrow> bnd (deref a) (\<lambda>v. bnd (alloc v) (\<lambda>a'. ret (a', (a, a') # memo))))"

definition shallow :: "string set" where
  "shallow = {''data'', ''plot_env''}"

text \<open>The loop of \<^verbatim>\<open>ggplot.__deepcopy__\<close> over the items of \<^verbatim>\<open>self.__dict__\<close>.\<close>

fun deepcopy_items :: "pdict \<Rightarrow> (addr \<times> addr) list \<Rightarrow> ('o, pdict) prog" where
  "deepcopy_items [] memo = ret []"
| "deepcopy_items ((key, item) # d) memo =
     (if key \<in> shallow
      then bnd (deepcopy_items d memo) (\<lambda>res. ret ((key, item) # res))
      else bnd (deepcopy_cell item memo) (\<lambda>(a', memo').
           bnd (deepcopy_items d memo') (\<lambda>res. ret ((key, a') # res))))"

text \<open>\<^verbatim>\<open>deepcopy(self)\<close> of a plot object.\<close>

definition deepcopy :: "pdict \<Rightarrow> ('o, pdict) prog" where
  "deepcopy self = bnd (emit Deepcopy) (\<lambda>_. deepcopy_items self [])"

section \<open>The build pipeline\<close>

text \<open>
  The closure \<^verbatim>\<open>dlapply(f)\<close> of \<^verbatim>\<open>plot_build\<close>: \<^verbatim>\<open>f(data[i], layers[i])\<close> for each
  index of \<^verbatim>\<open>data\<close>; \<^verbatim>\<open>layers\<close> is the list held by the copy's \<^verbatim>\<open>layers\<close> attribute.
\<close>

definition dlapply ::
  "addr \<Rightarrow> (nat \<Rightarrow> 'o layer \<Rightarrow> dataframe \<Rightarrow> ('o, dataframe) prog) \<Rightarrow> dataframe list
     \<Rightarrow> ('o, dataframe list) prog" where
  "dlapply layers f dat =
     for_each (\<lambda>i d.
       bnd (deref layers) (\<lambda>lv.
       bnd (lift (as_layers lv)) (\<lambda>ls.
       if i < length ls then f i (ls ! i) d else throw IndexError))) 0 dat"

text \<open>An element of \<^verbatim>\<open>layer_data\<close> as a value.\<close>

fun frame_val :: "dataframe option \<Rightarrow> 'o val" where
  "frame_val None = NoneVal"
| "frame_val (Some f) = DataFrame f"

text \<open>
  The stages of \<^verbatim>\<open>plot_build\<close> after \<^verbatim>\<open>plot = deepcopy(self)\<close>, in the order of the source.
  \<open>layers\<close>, \<open>pdata\<close> and \<open>scales\<close> are the cells of \<^verbatim>\<open>plot.layers\<close>, \<^verbatim>\<open>plot.data\<close> and
  \<^verbatim>\<open>plot.scales\<close>, read once at the start.
\<close>

text \<open>Panel and layout: \<^verbatim>\<open>train_layout\<close>, then \<^verbatim>\<open>map_layout\<close>.\<close>

definition layout_stage ::
  "'o collab \<Rightarrow> pdict \<Rightarrow> addr \<Rightarrow> addr \<Rightarrow> dataframe option list \<Rightarrow> 'o val list
     \<Rightarrow> ('o, 'o panel \<times> dataframe list) prog" where
  "layout_stage c plot layers pdata layer_dat all_data =
     (let panel = new_panel c in
     bnd (attr plot ''facet'') (\<lambda>facet.
     bnd (invoke TrainLayout [facet, pdata, layers] (\<lambda>vs. train_layout c vs all_data)) (\<lambda>lay.
     let panel = panel\<lparr>layout := lay\<rparr> in
     bnd (attr plot ''facet'') (\<lambda>facet.
     bnd (attr plot ''data'') (\<lambda>pdata.
     bnd (deref pdata) (\<lambda>dv.
     bnd (invoke MapLayout [facet, pdata, layers]
            (\<lambda>vs. map_layout c vs (layout panel, layer_dat, dv))) (\<lambda>dat.
     ret (panel, dat))))))))"

text \<open>\<^verbatim>\<open>compute_aesthetics\<close>, \<^verbatim>\<open>add_group\<close> and \<^verbatim>\<open>scales.transform_df\<close> on every dataset.\<close>

definition aesthetics_stage ::
  "'o collab \<Rightarrow> pdict \<Rightarrow> addr \<Rightarrow> addr \<Rightarrow> dataframe list \<Rightarrow> ('o, dataframe list) prog" where
  "aesthetics_stage c plot layers scales dat =
     bnd (dlapply layers (\<lambda>i l d.
            invoke (ComputeAesthetics i) (map snd plot)
              (\<lambda>vs. compute_aesthetics c vs (i, l, d))) dat) (\<lambda>dat.
     bnd (for_each (\<lambda>i d. invoke (AddGroup i) [] (\<lambda>vs. add_group c vs d)) 0 dat) (\<lambda>dat.
     for_each (\<lambda>i d. invoke (TransformDf i) [scales] (\<lambda>vs. transform_df c vs d)) 0 dat))"

text \<open>
  \<^verbatim>\<open>panel.train_position(data, scale_x(), scale_y())\<close> and \<^verbatim>\<open>data = panel.map_position(data,
  scale_x(), scale_y())\<close>; the source has the pair twice, \<open>pass\<close> is 1 or 2.
\<close>

definition position_stage ::
  "'o collab \<Rightarrow> addr \<Rightarrow> nat \<Rightarrow> 'o panel \<Rightarrow> dataframe list
     \<Rightarrow> ('o, 'o panel \<times> dataframe list) prog" where
  "position_stage c scales pass panel dat =
     bnd (invoke (GetScales ''x'' (2 * pass - 1)) [scales] (\<lambda>vs. get_scales c vs ''x'')) (\<lambda>sx.
     bnd (invoke (GetScales ''y'' (2 * pass - 1)) [scales] (\<lambda>vs. get_scales c vs ''y'')) (\<lambda>sy.
     bnd (invoke (TrainPosition pass) [scales]
            (\<lambda>vs. train_position c vs (panel, dat, sx, sy))) (\<lambda>panel.
     bnd (invoke (GetScales ''x'' (2 * pass)) [scales] (\<lambda>vs. get_scales c vs ''x'')) (\<lambda>sx.
     bnd (invoke (GetScales ''y'' (2 * pass)) [scales] (\<lambda>vs. get_scales c vs ''y'')) (\<lambda>sy.
     invoke (MapPosition pass) [scales] (\<lambda>vs. map_position c vs (panel, dat, sx, sy)))))))"

text \<open>\<^verbatim>\<open>calculate_stats\<close>, \<^verbatim>\<open>map_statistic\<close> on every dataset, then \<^verbatim>\<open>scales_add_missing\<close>.\<close>

definition statistics_stage ::
  "'o collab \<Rightarrow> pdict \<Rightarrow> addr \<Rightarrow> addr \<Rightarrow> 'o panel \<Rightarrow> dataframe list
     \<Rightarrow> ('o, 'o panel \<times> dataframe list) prog" where
  "statistics_stage c plot layers scales panel dat =
     bnd (deref layers) (\<lambda>lv.
     bnd (lift (as_layers lv)) (\<lambda>ls.
     bnd (invoke CalculateStats [scales, layers]
            (\<lambda>vs. calculate_stats c vs (panel, dat, ls))) (\<lambda>(panel, dat).
     bnd (dlapply layers (\<lambda>i l d.
            invoke (MapStatistic i) (map snd plot)
              (\<lambda>vs. map_statistic c vs (i, l, d))) dat) (\<lambda>dat.
     bnd (invoke ScalesAddMissing (map snd plot)
            (\<lambda>vs. scales_add_missing c vs [''x'', ''y''])) (\<lambda>_.
     ret (panel, dat))))))"

text \<open>\<^verbatim>\<open>reparameterise\<close> on every dataset, then \<^verbatim>\<open>adjust_position\<close> on every dataset.\<close>

definition geometry_stage ::
  "'o collab \<Rightarrow> addr \<Rightarrow> dataframe list \<Rightarrow> ('o, dataframe list) prog" where
  "geometry_stage c layers dat =
     bnd (dlapply layers (\<lambda>i l d.
            invoke (Reparameterise i) [layers] (\<lambda>vs. reparameterise c vs (i, l, d))) dat) (\<lambda>dat.
     dlapply layers (\<lambda>i l d.
            invoke (AdjustPosition i) [layers] (\<lambda>vs. adjust_position c vs (i, l, d))) dat)"

text \<open>Training and mapping of the non-position scales, when there are any.\<close>

definition non_position_stage ::
  "'o collab \<Rightarrow> addr \<Rightarrow> dataframe list \<Rightarrow> ('o, dataframe list) prog" where
  "non_position_stage c scales dat =
     bnd (invoke NonPositionScales [scales] (\<lambda>vs. non_position_scales c vs ())) (\<lambda>npscales.
     bnd (lift (case obj_len c npscales of None \<Rightarrow> Inl TypeError | Some n \<Rightarrow> Inr n)) (\<lambda>n.
     if n \<noteq> 0
     then bnd (for_each (\<lambda>i d. invoke (TrainDf i) [scales]
                   (\<lambda>vs. train_df c vs (npscales, d))) 0 dat) (\<lambda>dat.
          for_each (\<lambda>i d. invoke (MapDf i) [scales]
                   (\<lambda>vs. map_df c vs (npscales, d))) 0 dat)
     else ret dat))"

definition build_pipeline ::
  "'o collab \<Rightarrow> pdict \<Rightarrow> ('o, dataframe list \<times> 'o panel \<times> pdict) prog" where
  "build_pipeline c plot =
     bnd (attr plot ''layers'') (\<lambda>layers.
     bnd (deref layers) (\<lambda>lv.
     bnd (lift (as_layers lv)) (\<lambda>ls.
     let layer_dat = map layer_data ls in
     bnd (attr plot ''data'') (\<lambda>pdata.
     bnd (deref pdata) (\<lambda>dv.
     let all_data = dv # map frame_val layer_dat in
     bnd (attr plot ''scales'') (\<lambda>scales.
     bnd (layout_stage c plot layers pdata layer_dat all_data) (\<lambda>(panel, dat).
     bnd (aesthetics_stage c plot layers scales dat) (\<lambda>dat.
     bnd (position_stage c scales 1 panel dat) (\<lambda>(panel, dat).
     bnd (statistics_stage c plot layers scales panel dat) (\<lambda>(panel, dat).
     bnd (geometry_stage c layers dat) (\<lambda>dat.
     bnd (invoke ResetScales [scales] (\<lambda>vs. reset_scales c vs panel)) (\<lambda>panel.
     bnd (position_stage c scales 2 panel dat) (\<lambda>(panel, dat).
     bnd (non_position_stage c scales dat) (\<lambda>dat.
     bnd (invoke TrainRanges [scales] (\<lambda>vs. train_ranges c vs panel)) (\<lambda>panel.
     ret (dat, panel, plot))))))))))))))))"

text \<open>\<^verbatim>\<open>ggplot.plot_build(self)\<close>.\<close>

definition plot_build ::
  "'o collab \<Rightarrow> pdict \<Rightarrow> ('o, dataframe list \<times> 'o panel \<times> pdict) prog" where
  "plot_build c self =
     bnd (getattr self ''layers'') (\<lambda>lv.
     bnd (lift (truthy c lv)) (\<lambda>t.
     if \<not> t then throw (GgplotError ''No layers in plot'')
     else bnd (deepcopy self) (\<lambda>plot. build_pipeline c plot)))"

section \<open>Drawing\<close>

text \<open>\<^verbatim>\<open>set_breaks(panel, idx, ax)\<close> and \<^verbatim>\<open>set_labels(panel, idx, ax)\<close>.\<close>

definition set_breaks :: "'o panel \<Rightarrow> int \<Rightarrow> nat \<Rightarrow> ('o, unit) prog" where
  "set_breaks panel idx ax =
     bnd (lift (py_index (ranges panel) idx)) (\<lambda>rx.
     bnd (lift (py_index (ranges panel) idx)) (\<lambda>ry.
     bnd (case x_breaks rx of Waive \<Rightarrow> ret () | Explicit b \<Rightarrow> emit (SetXticks ax b)) (\<lambda>_.
     case y_breaks ry of Waive \<Rightarrow> ret () | Explicit b \<Rightarrow> emit (SetYticks ax b))))"

definition set_labels :: "'o panel \<Rightarrow> int \<Rightarrow> nat \<Rightarrow> ('o, unit) prog" where
  "set_labels panel idx ax =
     bnd (lift (py_index (ranges panel) idx)) (\<lambda>rx.
     bnd (lift (py_index (ranges panel) idx)) (\<lambda>ry.
     bnd (case x_labels rx of Waive \<Rightarrow> ret () | Explicit b \<Rightarrow> emit (SetXticklabels ax b)) (\<lambda>_.
     case y_labels ry of Waive \<Rightarrow> ret () | Explicit b \<Rightarrow> emit (SetYticklabels ax b))))"

text \<open>
  \<^verbatim>\<open>set_axis_attributes(plot, pnl, ax)\<close>; the empty list of tick labels is written as
  the empty string.
\<close>

definition set_axis_attributes ::
  "'o collab \<Rightarrow> pdict \<Rightarrow> string list \<Rightarrow> int list \<Rightarrow> nat \<Rightarrow> ('o, unit) prog" where
  "set_axis_attributes c plot cols pnl ax =
     bnd (lift (row_get cols pnl ''ROW'')) (\<lambda>r.
     bnd (getattr plot ''facet'') (\<lambda>fv.
     bnd (lift (facet_nrow c fv)) (\<lambda>nrow.
     let xaxis = (if r = nrow then [(''set_ticks_position'', ''bottom'')]
                  else [(''set_ticks_position'', ''none''), (''set_ticklabels'', [])]) in
     bnd (lift (row_get cols pnl ''COL'')) (\<lambda>cl.
     let yaxis = (if cl = 1 then [(''set_ticks_position'', ''left'')]
                  else [(''set_ticks_position'', ''none''), (''set_ticklabels'', [])]) in
     bnd (attr plot ''theme'') (\<lambda>_.
     emit (PostPlotCallback ax xaxis yaxis))))))"

text \<open>
  \<^verbatim>\<open>draw_facet_label(plot, pnl, ax, fig)\<close>: which strips are drawn; the text and its box are
  left to the drawing surface.
\<close>

definition draw_facet_label ::
  "'o collab \<Rightarrow> pdict \<Rightarrow> string list \<Rightarrow> int list \<Rightarrow> nat \<Rightarrow> ('o, unit) prog" where
  "draw_facet_label c plot cols pnl ax =
     bnd (getattr plot ''facet'') (\<lambda>fv.
     let is_wrap = (facet_kind c fv = ''facet_wrap'');
         is_grid = (facet_kind c fv = ''facet_grid'') in
     bnd (if is_grid
          then bnd (lift (row_get cols pnl ''ROW'')) (\<lambda>r.
               if r \<noteq> 1
               then bnd (lift (row_get cols pnl ''COL'')) (\<lambda>cl.
                    bnd (lift (facet_ncol c fv)) (\<lambda>ncol. ret (cl \<noteq> ncol)))
               else ret False)
          else ret False) (\<lambda>skip.
     if skip then ret ()
     else if is_wrap then emit (DrawFacetLabel ax ''top'')
     else
       bnd (lift (row_get cols pnl ''ROW'')) (\<lambda>r.
       bnd (if r = 1 then emit (DrawFacetLabel ax ''top'') else ret ()) (\<lambda>_.
       bnd (lift (row_get cols pnl ''COL'')) (\<lambda>cl.
       bnd (lift (facet_ncol c fv)) (\<lambda>ncol.
       if cl = ncol then emit (DrawFacetLabel ax ''right'') else ret ()))))))"

text \<open>
  The inner loop of \<^verbatim>\<open>draw\<close> for one panel: \<^verbatim>\<open>l.plot(d[d['PANEL'] == pnl['PANEL']],
  xy_scales, ax, zorder)\<close> for each layer and its dataset, \<^verbatim>\<open>zorder\<close> counted from 1.
\<close>

definition plot_layers ::
  "('o layer \<times> dataframe) list \<Rightarrow> int \<Rightarrow> 'o \<Rightarrow> 'o \<Rightarrow> nat \<Rightarrow> ('o, unit list) prog" where
  "plot_layers lds pid sx sy ax =
     for_each (\<lambda>zorder (l, d).
       bnd (lift (select_eq d ''PANEL'' pid)) (\<lambda>sub.
       emit (LayerPlot ax l sub sx sy zorder))) 1 lds"

text \<open>The body of the loop of \<^verbatim>\<open>draw\<close> over the axes and the rows of the layout table.\<close>

definition draw_panel ::
  "'o collab \<Rightarrow> pdict \<Rightarrow> dataframe list \<Rightarrow> 'o panel \<Rightarrow> nat \<Rightarrow> int list \<Rightarrow> ('o, unit) prog" where
  "draw_panel c plot dat panel ax pnl =
     (let cols = columns (layout panel) in
     bnd (lift (row_get cols pnl ''PANEL'')) (\<lambda>pid.
     let panel_idx = pid - 1 in
     bnd (lift (row_get cols pnl ''SCALE_X'')) (\<lambda>ix.
     bnd (lift (py_index (x_scales panel) (ix - 1))) (\<lambda>sx.
     bnd (lift (row_get cols pnl ''SCALE_Y'')) (\<lambda>iy.
     bnd (lift (py_index (y_scales panel) (iy - 1))) (\<lambda>sy.
     bnd (getattr plot ''layers'') (\<lambda>lv.
     bnd (lift (as_layers lv)) (\<lambda>ls.
     bnd (plot_layers (zip ls dat) pid sx sy ax) (\<lambda>_.
     bnd (lift (py_index (ranges panel) panel_idx)) (\<lambda>rg.
     bnd (emit (SetXlim ax (range_x rg))) (\<lambda>_.
     bnd (lift (py_index (ranges panel) panel_idx)) (\<lambda>rg.
     bnd (emit (SetYlim ax (range_y rg))) (\<lambda>_.
     bnd (set_breaks panel panel_idx ax) (\<lambda>_.
     bnd (set_labels panel panel_idx ax) (\<lambda>_.
     bnd (set_axis_attributes c plot cols pnl ax) (\<lambda>_.
     bnd (if is_scale_discrete c sx then emit (GridOff ax ''x'') else ret ()) (\<lambda>_.
     bnd (if is_scale_discrete c sy then emit (GridOff ax ''y'') else ret ()) (\<lambda>_.
     bnd (getattr plot ''facet'') (\<lambda>fv.
     if facet_kind c fv = ''facet_grid'' \<or> facet_kind c fv = ''facet_wrap''
     then draw_facet_label c plot cols pnl ax
     else ret ())))))))))))))))))))"

text \<open>
  \<^verbatim>\<open>ggplot.draw(self)\<close>: the build, then \<open>draw_built\<close> on what it returns. An axes is
  named by its position in the flattened grid of \<^verbatim>\<open>plt.subplots(nrow, ncol)\<close>, which
  refuses a grid without rows or columns.
\<close>

definition draw_built ::
  "'o collab \<Rightarrow> dataframe list \<times> 'o panel \<times> pdict
     \<Rightarrow> ('o, dataframe list \<times> 'o panel \<times> pdict) prog" where
  "draw_built c = (\<lambda>(dat, panel, plot).
     bnd (getattr plot ''facet'') (\<lambda>fv.
     bnd (lift (facet_nrow c fv)) (\<lambda>nrow.
     bnd (getattr plot ''facet'') (\<lambda>fv.
     bnd (lift (facet_ncol c fv)) (\<lambda>ncol.
     bnd (emit (Subplots nrow ncol)) (\<lambda>_.
     if nrow \<le> 0 \<or> ncol \<le> 0 then throw ValueError
     else
     let axs = [0 ..< nat (nrow * ncol)] in
     bnd (alloc Figure) (\<lambda>fig.
     bnd (alloc (Axes axs)) (\<lambda>axs_ref.
     let plot = setattr (setattr plot ''axs'' axs_ref) ''fig'' fig in
     bnd (for_each (\<lambda>_ (ax, pnl). draw_panel c plot dat panel ax pnl) 0
            (zip axs (rows (layout panel)))) (\<lambda>_.
     bnd (getattr plot ''facet'') (\<lambda>fv.
     bnd (emit (SubplotsAdjust (facet_kind c fv = ''facet_wrap''))) (\<lambda>_.
     bnd (attr plot ''scales'') (\<lambda>_.
     bnd (emit ModifyAxis) (\<lambda>_.
     ret (dat, panel, plot))))))))))))))"

definition draw :: "'o collab \<Rightarrow> pdict \<Rightarrow> ('o, dataframe list \<times> 'o panel \<times> pdict) prog" where
  "draw c self = bnd (plot_build c self) (draw_built c)"

text \<open>
  \<^verbatim>\<open>ggplot.draw_legend(self, plot)\<close>. The anchor in figure coordinates is written in
  hundredths.
\<close>

definition lookup :: "string \<Rightarrow> (nat \<times> (int \<times> int)) option" where
  "lookup position =
     map_of [(''right'', (6, (94, 50))), (''left'', (7, (7, 50))),
             (''top'', (8, (50, 95))), (''bottom'', (9, (50, 7)))] position"

definition draw_legend :: "'o collab \<Rightarrow> pdict \<Rightarrow> ('o, pdict) prog" where
  "draw_legend c plot =
     bnd (attr plot ''guides'') (\<lambda>_.
     bnd (invoke GuidesBuild (map snd plot) (\<lambda>vs. guides_build c vs ())) (\<lambda>legend_box.
     bnd (lift (truthy c legend_box)) (\<lambda>t.
     if \<not> t then ret plot
     else
     bnd (getattr plot ''theme'') (\<lambda>tv.
     bnd (lift (theme_params c tv ''legend_position'')) (\<lambda>position.
     case lookup position of
       None \<Rightarrow> throw (KeyError position)
     | Some (loc, box_to_anchor) \<Rightarrow>
         bnd (attr plot ''fig'') (\<lambda>_.
         bnd (getattr plot ''axs'') (\<lambda>av.
         bnd (lift (case av of Axes as \<Rightarrow> py_index as 0 | _ \<Rightarrow> Inl TypeError)) (\<lambda>ax.
         bnd (emit (AddArtist ax legend_box loc box_to_anchor)) (\<lambda>_.
         ret plot)))))))))"



section \<open>A small plot\<close>

text \<open>
  A plot of two layers over two panels, with collaborators that do next to nothing: the
  facet lays out two panels in one row, a layer without data of its own gets the plot's,
  the statistics and position adjustments pass the data through, \<^verbatim>\<open>scales_add_missing\<close>
  replaces the scales of the plot it is given, and the guides build one legend box.
\<close>

definition example_layout :: dataframe where
  "example_layout =
     \<lparr>columns = [''PANEL'', ''ROW'', ''COL'', ''SCALE_X'', ''SCALE_Y''],
      rows = [[1, 1, 1, 1, 1], [2, 1, 2, 1, 1]]\<rparr>"

definition example_data :: dataframe where
  "example_data = \<lparr>columns = [''PANEL'', ''x'', ''y''], rows = [[1, 1, 2], [2, 3, 4], [1, 5, 6]]\<rparr>"

definition example_layer_data :: dataframe where
  "example_layer_data = \<lparr>columns = [''PANEL'', ''x'', ''y''], rows = [[2, 7, 8]]\<rparr>"

definition example_range :: panel_range where
  "example_range =
     \<lparr>range_x = (0, 10), range_y = (0, 10), x_breaks = Explicit [0, 5, 10], y_breaks = Waive,
      x_labels = Explicit [''0'', ''5'', ''10''], y_labels = Waive\<rparr>"

definition example_collab :: "nat collab" where
  "example_collab =
     \<lparr>aes_env = (\<lambda>v. case v of Object _ \<Rightarrow> Some 1 | _ \<Rightarrow> None),
      new_facet_null = 12,
      make_labels = (\<lambda>v. case v of Object _ \<Rightarrow> Inr 13 | _ \<Rightarrow> Inl (AttributeError ''aes_env'')),
      new_guides = 14,
      new_scales = 15,
      new_theme_gray = 16,
      new_panel = \<lparr>layout = \<lparr>columns = [], rows = []\<rparr>, x_scales = [], y_scales = [],
                    ranges = [], panel_obj = None\<rparr>,
      truth = (\<lambda>_. True),
      obj_len = (\<lambda>_. Some 1),
      train_layout = (\<lambda>vs _. Inr (vs, example_layout)),
      map_layout = (\<lambda>vs (lay, ld, dv).
         Inr (vs, map (\<lambda>d. case d of Some f \<Rightarrow> f
                              | None \<Rightarrow> (case dv of DataFrame f \<Rightarrow> f
                                          | _ \<Rightarrow> \<lparr>columns = [], rows = []\<rparr>)) ld)),
      compute_aesthetics = (\<lambda>vs (i, l, d). Inr (vs, d)),
      add_group = (\<lambda>vs d. Inr (vs, d)),
      transform_df = (\<lambda>vs d. Inr (vs, d)),
      get_scales = (\<lambda>vs a. Inr (vs, Object (if a = ''x'' then 20 else 21))),
      train_position = (\<lambda>vs (p, dat, sx, sy). Inr (vs, p\<lparr>x_scales := [20], y_scales := [21]\<rparr>)),
      map_position = (\<lambda>vs (p, dat, sx, sy). Inr (vs, (p, dat))),
      calculate_stats = (\<lambda>vs (p, dat, ls). Inr (vs, (p, dat))),
      map_statistic = (\<lambda>vs (i, l, d). Inr (vs, d)),
      scales_add_missing = (\<lambda>vs aes.
         Inr (map (\<lambda>v. case v of Object ob \<Rightarrow> Object (if ob = 15 then 17 else ob) | _ \<Rightarrow> v) vs,
              ())),
      reparameterise = (\<lambda>vs (i, l, d). Inr (vs, d)),
      adjust_position = (\<lambda>vs (i, l, d). Inr (vs, d)),
      reset_scales = (\<lambda>vs p. Inr (vs, p\<lparr>x_scales := [], y_scales := []\<rparr>)),
      non_position_scales = (\<lambda>vs _. Inr (vs, 30)),
      train_df = (\<lambda>vs (np, d). Inr (vs, d)),
      map_df = (\<lambda>vs (np, d). Inr (vs, d)),
      train_ranges = (\<lambda>vs p. Inr (vs, p\<lparr>ranges := [example_range, example_range]\<rparr>)),
      facet_nrow = (\<lambda>_. Inr 1),
      facet_ncol = (\<lambda>_. Inr 2),
      facet_kind = (\<lambda>_. ''facet_wrap''),
      is_scale_discrete = (\<lambda>_. False),
      guides_build = (\<lambda>vs _. Inr (vs, Object 40)),
      theme_params = (\<lambda>_ _. Inr ''right'')\<rparr>"

text \<open>The store before the plot is made: an aesthetic mapping, its environment, a frame.\<close>

definition example_world0 :: "nat world" where
  "example_world0 =
     \<lparr>heap = (\<lambda>_. NoneVal)(0 := Object 10, 1 := Object 11, 2 := DataFrame example_data),
      nxt = 3, trace = []\<rparr>"

text \<open>The plot that \<^verbatim>\<open>ggplot(mapping, data)\<close> makes there, and the store with two layers added.\<close>

definition example_plot :: pdict where
  "example_plot =
     [(''data'', 2), (''mapping'', 0), (''facet'', 3), (''labels'', 4), (''layers'', 5),
      (''guides'', 6), (''scales'', 7), (''theme'', 8), (''plot_env'', 1)]"

definition example_layers :: "nat layer list" where
  "example_layers =
     [\<lparr>layer_data = None, layer_obj = 50\<rparr>,
      \<lparr>layer_data = Some example_layer_data, layer_obj = 51\<rparr>]"

definition example_world :: "nat world" where
  "example_world =
     \<lparr>heap = (\<lambda>_. NoneVal)(0 := Object 10, 1 := Object 11, 2 := DataFrame example_data,
               3 := Object 12, 4 := Object 13, 5 := Layers example_layers, 6 := Object 14,
               7 := Object 15, 8 := Object 16),
      nxt = 9, trace = []\<rparr>"

section \<open>What the draw loop is to pass to the layers\<close>

fun is_LayerPlot :: "'o event \<Rightarrow> bool" where
  "is_LayerPlot (LayerPlot ax l d sx sy z) = True"
| "is_LayerPlot _ = False"

text \<open>The rows of a dataset whose \<^verbatim>\<open>PANEL\<close> column holds the panel's id.\<close>

definition panel_rows :: "dataframe \<Rightarrow> int \<Rightarrow> dataframe" where
  "panel_rows d pid = d\<lparr>rows := filter (\<lambda>r. row_get (columns d) r ''PANEL'' = Inr pid) (rows d)\<rparr>"

text \<open>
  The calls of \<^verbatim>\<open>l.plot\<close> for one row of the layout table, following the specification:
  for each layer in registration order, with its dataset, the z-order counted from 1, the
  rows of the dataset that belong to the panel, and the panel's scales, the ones that the
  row's \<^verbatim>\<open>SCALE_X\<close> and \<^verbatim>\<open>SCALE_Y\<close> (less one) index.
\<close>

definition expected_layer_plots ::
  "'o panel \<Rightarrow> 'o layer list \<Rightarrow> dataframe list \<Rightarrow> nat \<times> int list \<Rightarrow> 'o event list" where
  "expected_layer_plots panel ls dat = (\<lambda>(ax, pnl).
     case (row_get (columns (layout panel)) pnl ''PANEL'',
           row_get (columns (layout panel)) pnl ''SCALE_X'',
           row_get (columns (layout panel)) pnl ''SCALE_Y'') of
       (Inr pid, Inr ix, Inr iy) \<Rightarrow>
         (case (py_index (x_scales panel) (ix - 1), py_index (y_scales panel) (iy - 1)) of
            (Inr sx, Inr sy) \<Rightarrow>
              map (\<lambda>(z, l, d). LayerPlot ax l (panel_rows d pid) sx sy z)
                (zip [1 ..< Suc (length ls)] (zip ls dat))
          | _ \<Rightarrow> [])
     | _ \<Rightarrow> [])"

text \<open>The panel that the build of the small plot returns.\<close>

definition example_panel :: "nat panel" where
  "example_panel =
     \<lparr>layout = example_layout, x_scales = [20], y_scales = [21],
      ranges = [example_range, example_range], panel_obj = None\<rparr>"

section \<open>What the draw loop is to tell the axes about their ticks\<close>

text \<open>
  The calls of the loop over the panels that decide the ticks of an axes and their labels:
  the four setters of
  \<^verbatim>\<open>set_breaks\<close> and \<^verbatim>\<open>set_labels\<close>, and the parameters that \<^verbatim>\<open>set_axis_attributes\<close> hands
  to the theme's \<^verbatim>\<open>post_plot_callback\<close>.
\<close>

fun is_tick_call :: "'o event \<Rightarrow> bool" where
  "is_tick_call (SetXticks ax b) = True"
| "is_tick_call (SetYticks ax b) = True"
| "is_tick_call (SetXticklabels ax b) = True"
| "is_tick_call (SetYticklabels ax b) = True"
| "is_tick_call (PostPlotCallback ax xaxis yaxis) = True"
| "is_tick_call _ = False"

text \<open>
  The setters for one entry of the panel's ranges: a call for each of the four fields that
  is not the waive sentinel, with the field as the argument, and none for a waived field.
\<close>

definition tick_setters :: "panel_range \<Rightarrow> nat \<Rightarrow> 'o event list" where
  "tick_setters rg ax =
     (case x_breaks rg of Waive \<Rightarrow> [] | Explicit b \<Rightarrow> [SetXticks ax b])
   @ (case y_breaks rg of Waive \<Rightarrow> [] | Explicit b \<Rightarrow> [SetYticks ax b])
   @ (case x_labels rg of Waive \<Rightarrow> [] | Explicit b \<Rightarrow> [SetXticklabels ax b])
   @ (case y_labels rg of Waive \<Rightarrow> [] | Explicit b \<Rightarrow> [SetYticklabels ax b])"

text \<open>
  The parameters for one axis: its ticks on the given side when the panel is on that edge
  of the grid, and otherwise no ticks and an empty list of tick labels.
\<close>

definition edge_params :: "bool \<Rightarrow> string \<Rightarrow> (string \<times> string) list" where
  "edge_params on_edge side =
     (if on_edge then [(''set_ticks_position'', side)]
      else [(''set_ticks_position'', ''none''), (''set_ticklabels'', [])])"

text \<open>
  The tick calls for one axes and row of the layout table: the setters for the entry of
  the ranges at the row's \<^verbatim>\<open>PANEL\<close> less one, then the callback with the parameters of the
  two axes; the x axis is on its edge in the bottom row, the y axis in the first column.
\<close>

definition expected_tick_calls :: "'o panel \<Rightarrow> int \<Rightarrow> nat \<times> int list \<Rightarrow> 'o event list" where
  "expected_tick_calls panel nrow = (\<lambda>(ax, pnl).
     case (row_get (columns (layout panel)) pnl ''PANEL'',
           row_get (columns (layout panel)) pnl ''ROW'',
           row_get (columns (layout panel)) pnl ''COL'') of
       (Inr pid, Inr r, Inr cl) \<Rightarrow>
         (case py_index (ranges panel) (pid - 1) of
            Inr rg \<Rightarrow> tick_setters rg ax
              @ [PostPlotCallback ax (edge_params (r = nrow) ''bottom'')
                   (edge_params (cl = 1) ''left'')]
          | Inl e \<Rightarrow> [])
     | _ \<Rightarrow> [])"

text \<open>A call that decides the labels of the y ticks of an axes.\<close>

fun sets_y_labels :: "nat \<Rightarrow> 'o event \<Rightarrow> bool" where
  "sets_y_labels ax (SetYticklabels ax' b) = (ax' = ax)"
| "sets_y_labels ax (PostPlotCallback ax' xaxis yaxis) =
     (ax' = ax \<and> ''set_ticklabels'' \<in> fst ` set yaxis)"
| "sets_y_labels ax _ = False"

text \<open>A program that leaves the store as it is and makes no tick call.\<close>

definition tickless :: "('o, 'r) prog \<Rightarrow> bool" where
  "tickless m \<longleftrightarrow> (\<forall>w w' r. m w = (w', r) \<longrightarrow>
     heap w' = heap w \<and> nxt w' = nxt w
     \<and> (\<exists>evs. trace w' = trace w @ evs \<and> filter is_tick_call evs = []))"

section \<open>Programs that call no layer\<close>

text \<open>
  A program is quiet when it leaves the store as it is and calls the \<^verbatim>\<open>plot\<close> routine of no
  layer.
\<close>

definition quiet :: "('o, 'r) prog \<Rightarrow> bool" where
  "quiet m \<longleftrightarrow> (\<forall>w w' r. m w = (w', r) \<longrightarrow>
     heap w' = heap w \<and> nxt w' = nxt w
     \<and> (\<exists>evs. trace w' = trace w @ evs \<and> filter is_LayerPlot evs = []))"

section \<open>Programs that write within a set of cells\<close>

text \<open>
  A program frames a set of addresses when it allocates nothing and leaves every cell
  outside the set as it is, whatever it returns.
\<close>

definition frames :: "addr set \<Rightarrow> ('o, 'r) prog \<Rightarrow> bool" where
  "frames F m \<longleftrightarrow> (\<forall>w w' r. m w = (w', r) \<longrightarrow>
     nxt w' = nxt w \<and> (\<forall>a. a \<notin> F \<longrightarrow> heap w' a = heap w a))"

text \<open>
  The memo of a deep copy that started when the store had \<open>n0\<close> cells: it maps cells of
  before to their copies, which are new and hold the same value. An item of the copy is
  correct when its key is the original's and its cell is the original's for the keys
  that are shared, a new cell holding the original's value otherwise.
\<close>

definition memo_ok :: "addr \<Rightarrow> 'o world \<Rightarrow> (addr \<times> addr) list \<Rightarrow> bool" where
  "memo_ok n0 w memo \<longleftrightarrow>
     (\<forall>(a, a') \<in> set memo. a < n0 \<and> n0 \<le> a' \<and> a' < nxt w \<and> heap w a' = heap w a)"

definition copied :: "addr \<Rightarrow> 'o world \<Rightarrow> 'o world \<Rightarrow> string \<times> addr \<Rightarrow> string \<times> addr \<Rightarrow> bool" where
  "copied n0 w w' = (\<lambda>(k, a) (k', a'). k' = k \<and>
     (if k \<in> shallow then a' = a else n0 \<le> a' \<and> a' < nxt w' \<and> heap w' a' = heap w a))"

section \<open>The order of the stages\<close>

text \<open>
  The events of a build that completes: the layout, the aesthetics, the first training of
  the positions, the statistics with \<^verbatim>\<open>scales_add_missing\<close> after them, the geometry, the
  reset and the second training of the positions, the non-position scales when there are
  any, and the ranges. \<open>k1\<close>, \<open>k3\<close> and \<open>k4\<close> are the numbers of datasets that
  \<^verbatim>\<open>map_layout\<close>, \<^verbatim>\<open>calculate_stats\<close> and the second \<^verbatim>\<open>map_position\<close> return.
\<close>

definition pipeline_trace :: "nat \<Rightarrow> nat \<Rightarrow> nat \<Rightarrow> bool \<Rightarrow> 'o event list" where
  "pipeline_trace k1 k3 k4 nps =
     [TrainLayout, MapLayout]
     @ map ComputeAesthetics [0 ..< k1] @ map AddGroup [0 ..< k1] @ map TransformDf [0 ..< k1]
     @ [GetScales ''x'' 1, GetScales ''y'' 1, TrainPosition 1,
        GetScales ''x'' 2, GetScales ''y'' 2, MapPosition 1]
     @ [CalculateStats] @ map MapStatistic [0 ..< k3] @ [ScalesAddMissing]
     @ map Reparameterise [0 ..< k3] @ map AdjustPosition [0 ..< k3]
     @ [ResetScales]
     @ [GetScales ''x'' 3, GetScales ''y'' 3, TrainPosition 2,
        GetScales ''x'' 4, GetScales ''y'' 4, MapPosition 2]
     @ [NonPositionScales]
     @ (if nps then map TrainDf [0 ..< k4] @ map MapDf [0 ..< k4] else [])
     @ [TrainRanges]"

text \<open>
  How these numbers arise from \<open>n\<close> layers: through what \<^verbatim>\<open>map_layout\<close>, \<^verbatim>\<open>map_position\<close>
  and \<^verbatim>\<open>calculate_stats\<close> return for the lists they are given.
\<close>

definition length_chain :: "'o collab \<Rightarrow> nat \<Rightarrow> nat \<Rightarrow> nat \<Rightarrow> nat \<Rightarrow> bool" where
  "length_chain c n k1 k3 k4 \<longleftrightarrow>
     (\<exists>vs vs' lay ld dv d1. map_layout c vs (lay, ld, dv) = Inr (vs', d1)
        \<and> length ld = n \<and> length d1 = k1)
   \<and> (\<exists>vs vs' p x sx sy p' d2. map_position c vs (p, x, sx, sy) = Inr (vs', p', d2)
        \<and> length x = k1
        \<and> (\<exists>vs vs' ls p1 d3. calculate_stats c vs (p', d2, ls) = Inr (vs', p1, d3)
              \<and> length d3 = k3))
   \<and> (\<exists>vs vs' p x sx sy p' d4. map_position c vs (p, x, sx, sy) = Inr (vs', p', d4)
        \<and> length x = k3 \<and> length d4 = k4)"


text \<open>
  The place of an event in the pipeline; a program is staged between two places when its
  events come in the order of their places and lie between the two.
\<close>

fun stage :: "'o event \<Rightarrow> nat" where
  "stage Deepcopy = 0"
| "stage TrainLayout = 1"
| "stage MapLayout = 2"
| "stage (ComputeAesthetics i) = 3"
| "stage (AddGroup i) = 4"
| "stage (TransformDf i) = 5"
| "stage (GetScales a k) = (if k = 1 then 6 else if k = 2 then 8 else if k = 3 then 16 else 18)"
| "stage (TrainPosition p) = (if p = 1 then 7 else 17)"
| "stage (MapPosition p) = (if p = 1 then 9 else 19)"
| "stage CalculateStats = 10"
| "stage (MapStatistic i) = 11"
| "stage ScalesAddMissing = 12"
| "stage (Reparameterise i) = 13"
| "stage (AdjustPosition i) = 14"
| "stage ResetScales = 15"
| "stage NonPositionScales = 20"
| "stage (TrainDf i) = 21"
| "stage (MapDf i) = 22"
| "stage TrainRanges = 23"
| "stage _ = 24"

definition staged :: "nat \<Rightarrow> nat \<Rightarrow> ('o, 'r) prog \<Rightarrow> bool" where
  "staged lo hi m \<longleftrightarrow> lo \<le> hi \<and> (\<forall>w w' r. m w = (w', r) \<longrightarrow>
     (\<exists>evs. trace w' = trace w @ evs \<and> sorted (map stage evs)
        \<and> (\<forall>e \<in> set evs. lo \<le> stage e \<and> stage e \<le> hi)))"

section \<open>What the build asks of the collaborators\<close>

text \<open>
  \<^verbatim>\<open>map_layout\<close> returns one dataset for each layer it is given the data of, and
  \<^verbatim>\<open>map_position\<close> and \<^verbatim>\<open>calculate_stats\<close> return one dataset for each dataset they are
  given: the contract of the panel and the facets in the specification.
\<close>

definition keeps_length :: "'o collab \<Rightarrow> bool" where
  "keeps_length c \<longleftrightarrow>
     (\<forall>vs lay ld dv vs' out. map_layout c vs (lay, ld, dv) = Inr (vs', out)
        \<longrightarrow> length out = length ld)
   \<and> (\<forall>vs p xs sx sy vs' p' out. map_position c vs (p, xs, sx, sy) = Inr (vs', p', out)
        \<longrightarrow> length out = length xs)
   \<and> (\<forall>vs p xs ls vs' p' out. calculate_stats c vs (p, xs, ls) = Inr (vs', p', out)
        \<longrightarrow> length out = length xs)"

text \<open>
  A collaborator that answers: whatever it is given, it returns, and it leaves a list of
  layers among the objects it is passed a list of layers of the same length (it neither
  adds nor removes a layer of the plot).
\<close>

definition keeps_layers :: "'o val list \<Rightarrow> 'o val list \<Rightarrow> bool" where
  "keeps_layers vs vs' \<longleftrightarrow> length vs' = length vs
     \<and> (\<forall>i < length vs. \<forall>ls. vs ! i = Layers ls
           \<longrightarrow> (\<exists>ls'. vs' ! i = Layers ls' \<and> length ls' = length ls))"

definition answers :: "('o, 'a, 'r) call \<Rightarrow> bool" where
  "answers f \<longleftrightarrow> (\<forall>vs a. \<exists>vs' r. f vs a = Inr (vs', r) \<and> keeps_layers vs vs')"

text \<open>
  Collaborators none of whose calls in \<^verbatim>\<open>plot_build\<close> raises, and whose collection of
  non-position scales has a length.
\<close>

definition cooperative :: "'o collab \<Rightarrow> bool" where
  "cooperative c \<longleftrightarrow>
     answers (train_layout c) \<and> answers (map_layout c) \<and> answers (compute_aesthetics c)
   \<and> answers (add_group c) \<and> answers (transform_df c) \<and> answers (get_scales c)
   \<and> answers (train_position c) \<and> answers (map_position c) \<and> answers (calculate_stats c)
   \<and> answers (map_statistic c) \<and> answers (scales_add_missing c) \<and> answers (reparameterise c)
   \<and> answers (adjust_position c) \<and> answers (reset_scales c)
   \<and> answers (non_position_scales c) \<and> answers (train_df c) \<and> answers (map_df c)
   \<and> answers (train_ranges c) \<and> (\<forall>ob. obj_len c ob \<noteq> None)"

text \<open>
  The cell \<open>la\<close> holds a list of \<open>n\<close> layers; and a program that, started in a store where
  \<open>I\<close> holds, returns a value for which \<open>Q\<close> holds, in a store where \<open>I\<close> holds again.
\<close>

definition has_layers :: "addr \<Rightarrow> nat \<Rightarrow> 'o world \<Rightarrow> bool" where
  "has_layers la n w \<longleftrightarrow> (\<exists>ls. heap w la = Layers ls \<and> length ls = n)"

definition total :: "('o world \<Rightarrow> bool) \<Rightarrow> ('o, 'r) prog \<Rightarrow> ('r \<Rightarrow> bool) \<Rightarrow> bool" where
  "total I m Q \<longleftrightarrow> (\<forall>w. I w \<longrightarrow> (\<exists>w' r. m w = (w', Inr r) \<and> I w' \<and> Q r))"

section \<open>Two runs of one program\<close>





section \<open>What a render leaves alone\<close>




section \<open>Evaluation rules\<close>

lemma bnd_Inr:
  "bnd m f w = (w', Inr r) \<longleftrightarrow> (\<exists>w1 a. m w = (w1, Inr a) \<and> f a w1 = (w', Inr r))"
  by (auto simp: bnd_def split: prod.splits sum.splits)

lemma bnd_ret [simp]: "bnd (ret a) f = f a"
  by (rule ext) (simp add: bnd_def ret_def)

lemma bnd_throw [simp]: "bnd (throw e) f = throw e"
  by (rule ext) (simp add: bnd_def throw_def)

lemma bnd_lift [simp]:
  "bnd (lift x) f w = (case x of Inl e \<Rightarrow> (w, Inl e) | Inr a \<Rightarrow> f a w)"
  by (simp add: bnd_def lift_def split: sum.splits)

lemma bnd_deref [simp]: "bnd (deref a) f w = f (heap w a) w"
  by (simp add: bnd_def deref_def)

lemma bnd_alloc [simp]:
  "bnd (alloc v) f w = f (nxt w) (w\<lparr>heap := (heap w)(nxt w := v), nxt := Suc (nxt w)\<rparr>)"
  by (simp add: bnd_def alloc_def)

lemma bnd_emit [simp]: "bnd (emit e) f w = f () (w\<lparr>trace := trace w @ [e]\<rparr>)"
  by (simp add: bnd_def emit_def)

lemma bnd_attr [simp]:
  "bnd (attr d k) f w =
     (case map_of d k of None \<Rightarrow> (w, Inl (AttributeError k)) | Some a \<Rightarrow> f a w)"
  by (simp add: attr_def throw_def split: option.splits)

lemma bnd_getattr [simp]:
  "bnd (getattr d k) f w =
     (case map_of d k of None \<Rightarrow> (w, Inl (AttributeError k)) | Some a \<Rightarrow> f (heap w a) w)"
  by (simp add: getattr_def bnd_def attr_def throw_def ret_def deref_def split: option.splits)

lemma bnd_invoke [simp]:
  "bnd (invoke e as g) f w =
     (case g (map (heap w) as) of
        Inl err \<Rightarrow> (w\<lparr>trace := trace w @ [e]\<rparr>, Inl err)
      | Inr (vs, r) \<Rightarrow> f r (w\<lparr>trace := trace w @ [e], heap := write_cells as vs (heap w)\<rparr>))"
  by (simp add: bnd_def invoke_def Let_def split: sum.splits prod.splits)

section \<open>The constructor\<close>

text \<open>
  C10. \<^verbatim>\<open>ggplot(mapping, data)\<close> takes its two arguments in either order: when the argument
  in the data position is not a DataFrame the two are swapped, so that of a mapping and a
  DataFrame, given in any order, \<^verbatim>\<open>self.data\<close> is the DataFrame and \<^verbatim>\<open>self.mapping\<close> the
  mapping; and the constructor returns when \<^verbatim>\<open>make_labels\<close> accepts the mapping and the
  mapping has its \<^verbatim>\<open>aes_env\<close>.
\<close>

theorem ggplot_init_either_order:
  fixes c :: "'o collab"
  defines "sel w m d \<equiv> (if is_DataFrame (heap w d) then (d, m) else (m, d))"
  shows "(\<forall>w' self. ggplot_init c m d w = (w', Inr self) \<longrightarrow>
            map_of self ''data'' = Some (fst (sel w m d))
          \<and> map_of self ''mapping'' = Some (snd (sel w m d))
          \<and> (m < nxt w \<and> d < nxt w \<and> is_DataFrame (heap w m) \<noteq> is_DataFrame (heap w d) \<longrightarrow>
               is_DataFrame (heap w' (fst (sel w m d)))
             \<and> \<not> is_DataFrame (heap w' (snd (sel w m d)))))
       \<and> (\<forall>lab env. m < nxt w \<and> d < nxt w
             \<and> make_labels c (heap w (snd (sel w m d))) = Inr lab
             \<and> aes_env c (heap w (snd (sel w m d))) = Some env \<longrightarrow>
            (\<exists>w' self. ggplot_init c m d w = (w', Inr self)))"
  unfolding sel_def
  by (auto simp: ggplot_init_def Let_def throw_def ret_def
           split: sum.splits option.splits if_splits prod.splits)

theorem ggplot_init_either_order_witness:
  "(\<exists>w' self. ggplot_init example_collab 2 0 example_world0 = (w', Inr self)
      \<and> map_of self ''data'' = Some 2 \<and> map_of self ''mapping'' = Some 0
      \<and> is_DataFrame (heap w' 2) \<and> \<not> is_DataFrame (heap w' 0))"
proof -
  have h: "(2::nat) < nxt example_world0 \<and> (0::nat) < nxt example_world0
      \<and> make_labels example_collab (heap example_world0 0) = Inr 13
      \<and> aes_env example_collab (heap example_world0 0) = Some 1"
    by (simp add: example_world0_def example_collab_def)
  have df: "is_DataFrame (heap example_world0 2)" "\<not> is_DataFrame (heap example_world0 0)"
    by (simp_all add: example_world0_def)
  note t = ggplot_init_either_order [of example_collab 2 0 example_world0]
  from t h df obtain w' self
    where r: "ggplot_init example_collab 2 0 example_world0 = (w', Inr self)"
    by auto
  with t h df show ?thesis by auto
qed

section \<open>The legend\<close>

text \<open>
  C8. When the guides build no legend box (what \<^verbatim>\<open>guides.build\<close> returns is false),
  \<^verbatim>\<open>draw_legend\<close> returns the plot it was given and adds no artist to any axes; an
  artist is added only when the guides return a legend box that is true, and it is that
  box.
\<close>

theorem draw_legend_no_legend:
  assumes "map_of plot ''guides'' = Some g"
    and "guides_build c (map (heap w) (map snd plot)) () = Inr (vs, box)"
  shows "(truthy c box = Inr False \<longrightarrow>
            draw_legend c plot w =
              (w\<lparr>trace := trace w @ [GuidesBuild],
                 heap := write_cells (map snd plot) vs (heap w)\<rparr>, Inr plot))
       \<and> (\<forall>w' r ax b loc anchor.
            draw_legend c plot w = (w', r) \<and> AddArtist ax b loc anchor \<in> set (trace w')
              \<and> AddArtist ax b loc anchor \<notin> set (trace w)
            \<longrightarrow> b = box \<and> truthy c box = Inr True)"
  using assms
  by (auto simp: draw_legend_def ret_def throw_def
           split: sum.splits option.splits prod.splits if_splits val.splits)

theorem draw_legend_no_legend_witness:
  "map_of example_plot ''guides'' = Some 6
   \<and> guides_build (example_collab\<lparr>guides_build := \<lambda>vs _. Inr (vs, NoneVal)\<rparr>)
        (map (heap example_world) (map snd example_plot)) ()
      = Inr (map (heap example_world) (map snd example_plot), NoneVal)
   \<and> snd (draw_legend (example_collab\<lparr>guides_build := \<lambda>vs _. Inr (vs, NoneVal)\<rparr>)
             example_plot example_world) = Inr example_plot
   \<and> trace (fst (draw_legend (example_collab\<lparr>guides_build := \<lambda>vs _. Inr (vs, NoneVal)\<rparr>)
             example_plot example_world)) = [GuidesBuild]"
proof -
  let ?c = "example_collab\<lparr>guides_build := \<lambda>vs _. Inr (vs, NoneVal)\<rparr>"
  have g: "map_of example_plot ''guides'' = Some 6"
    by (simp add: example_plot_def)
  have b: "guides_build ?c (map (heap example_world) (map snd example_plot)) ()
             = Inr (map (heap example_world) (map snd example_plot), NoneVal)"
    by simp
  have t: "truthy ?c NoneVal = Inr False" "trace example_world = []"
    by (simp_all add: example_world_def)
  show ?thesis
    using g b draw_legend_no_legend [OF g b] t by simp
qed

text \<open>
  C7, as the code has it. When the guides build a legend box and the theme's
  \<^verbatim>\<open>legend_position\<close> is a string other than right, left, top and bottom, \<^verbatim>\<open>draw_legend\<close>
  raises the KeyError of the lookup table, with the position as its key, and no artist is
  added.
\<close>

theorem draw_legend_invalid_position:
  assumes "map_of plot ''guides'' = Some g"
    and "guides_build c (map (heap w) (map snd plot)) () = Inr (vs, box)"
    and "truthy c box = Inr True"
    and "map_of plot ''theme'' = Some t"
    and "theme_params c (write_cells (map snd plot) vs (heap w) t) ''legend_position''
           = Inr position"
    and "position \<notin> {''right'', ''left'', ''top'', ''bottom''}"
  shows "draw_legend c plot w =
           (w\<lparr>trace := trace w @ [GuidesBuild],
              heap := write_cells (map snd plot) vs (heap w)\<rparr>, Inl (KeyError position))"
  using assms
  by (auto simp: draw_legend_def ret_def throw_def lookup_def
           split: sum.splits option.splits prod.splits if_splits val.splits)

theorem draw_legend_invalid_position_witness:
  "''center'' \<notin> {''right'', ''left'', ''top'', ''bottom''}
   \<and> snd (draw_legend (example_collab\<lparr>theme_params := \<lambda>_ _. Inr ''center''\<rparr>)
             example_plot (example_world\<lparr>trace := [Subplots 1 2]\<rparr>)) = Inl (KeyError ''center'')
   \<and> trace (fst (draw_legend (example_collab\<lparr>theme_params := \<lambda>_ _. Inr ''center''\<rparr>)
             example_plot (example_world\<lparr>trace := [Subplots 1 2]\<rparr>)))
       = [Subplots 1 2, GuidesBuild]"
proof -
  let ?c = "example_collab\<lparr>theme_params := \<lambda>_ _. Inr ''center''\<rparr>"
  let ?w = "example_world\<lparr>trace := [Subplots 1 2]\<rparr>"
  have g: "map_of example_plot ''guides'' = Some 6"
    by (simp add: example_plot_def)
  have b: "guides_build ?c (map (heap ?w) (map snd example_plot)) ()
             = Inr (map (heap ?w) (map snd example_plot), Object 40)"
    by (simp add: example_collab_def)
  have t: "truthy ?c (Object 40) = Inr True"
    by (simp add: example_collab_def)
  have th: "map_of example_plot ''theme'' = Some 8"
    by (simp add: example_plot_def)
  have p: "theme_params ?c (write_cells (map snd example_plot)
             (map (heap ?w) (map snd example_plot)) (heap ?w) 8) ''legend_position'' = Inr ''center''"
    by simp
  have n: "''center'' \<notin> {''right'', ''left'', ''top'', ''bottom''}"
    by simp
  show ?thesis
    using n draw_legend_invalid_position [OF g b t th p n] by simp
qed

text \<open>
  The claim as the specification states it fails: with the position \<open>center\<close> the error
  is a KeyError, where the specification has a SpecificationError (the GgplotError of
  this code).
\<close>

theorem draw_legend_invalid_position_counterexample:
  "snd (draw_legend (example_collab\<lparr>theme_params := \<lambda>_ _. Inr ''center''\<rparr>)
          example_plot example_world) = Inl (KeyError ''center'')
   \<and> \<not> (case snd (draw_legend (example_collab\<lparr>theme_params := \<lambda>_ _. Inr ''center''\<rparr>)
                 example_plot example_world) of
            Inl (GgplotError msg) \<Rightarrow> True | _ \<Rightarrow> False)"
  by (simp add: draw_legend_def example_collab_def example_plot_def example_world_def
      lookup_def throw_def)

section \<open>No layers\<close>

text \<open>
  C1. When \<^verbatim>\<open>self.layers\<close> is the empty list, \<^verbatim>\<open>plot_build\<close> raises
  \<^verbatim>\<open>GgplotError('No layers in plot')\<close> and leaves the store and the trace as they were:
  nothing has been copied, and \<^verbatim>\<open>draw\<close> raises the same before \<^verbatim>\<open>plt.subplots\<close> is
  called. When the list is not empty the check passes: \<^verbatim>\<open>plot_build\<close> is what the deep
  copy and the pipeline after it do.
\<close>

theorem plot_build_no_layers:
  assumes "map_of self ''layers'' = Some a" and "heap w a = Layers ls"
  shows "(ls = [] \<longrightarrow>
            plot_build c self w = (w, Inl (GgplotError ''No layers in plot''))
          \<and> draw c self w = (w, Inl (GgplotError ''No layers in plot'')))
       \<and> (ls \<noteq> [] \<longrightarrow>
            plot_build c self w = bnd (deepcopy self) (build_pipeline c) w)"
proof (intro conjI impI)
  assume e: "ls = []"
  show pb: "plot_build c self w = (w, Inl (GgplotError ''No layers in plot''))"
    using assms e by (simp add: plot_build_def throw_def)
  show "draw c self w = (w, Inl (GgplotError ''No layers in plot''))"
    by (simp add: draw_def bnd_def pb)
next
  assume "ls \<noteq> []"
  then show "plot_build c self w = bnd (deepcopy self) (build_pipeline c) w"
    using assms by (simp add: plot_build_def)
qed

theorem plot_build_no_layers_witness:
  "map_of example_plot ''layers'' = Some 5
   \<and> heap (example_world\<lparr>heap := (heap example_world)(5 := Layers [])\<rparr>) 5 = Layers []
   \<and> plot_build example_collab example_plot
        (example_world\<lparr>heap := (heap example_world)(5 := Layers [])\<rparr>)
       = (example_world\<lparr>heap := (heap example_world)(5 := Layers [])\<rparr>,
          Inl (GgplotError ''No layers in plot''))
   \<and> heap example_world 5 = Layers example_layers \<and> example_layers \<noteq> []
   \<and> plot_build example_collab example_plot example_world
       = bnd (deepcopy example_plot) (build_pipeline example_collab) example_world"
proof -
  let ?w = "example_world\<lparr>heap := (heap example_world)(5 := Layers [])\<rparr>"
  have a: "map_of example_plot ''layers'' = Some 5"
    by (simp add: example_plot_def)
  have e: "heap ?w 5 = Layers []"
    by simp
  have n: "heap example_world 5 = Layers example_layers" "example_layers \<noteq> []"
    by (simp_all add: example_world_def example_layers_def)
  show ?thesis
    using a e n plot_build_no_layers [OF a e, of example_collab]
      plot_build_no_layers [OF a n(1), of example_collab]
    by simp
qed

section \<open>The draw loop\<close>

lemma quiet_ret [intro!, simp]: "quiet (ret x)"
  by (simp add: quiet_def ret_def)

lemma quiet_throw [intro!, simp]: "quiet (throw e)"
  by (simp add: quiet_def throw_def)

lemma quiet_lift [intro!, simp]: "quiet (lift x)"
  by (simp add: quiet_def lift_def)

lemma quiet_deref [intro!, simp]: "quiet (deref a)"
  by (simp add: quiet_def deref_def)

lemma quiet_attr [intro!, simp]: "quiet (attr d k)"
  by (simp add: attr_def split: option.splits)

lemma quiet_emit [intro!]: "\<not> is_LayerPlot e \<Longrightarrow> quiet (emit e)"
  by (simp add: quiet_def emit_def)

lemma quiet_bnd [intro!]:
  assumes "quiet m" and "\<And>x. quiet (f x)"
  shows "quiet (bnd m f)"
  unfolding quiet_def
proof (intro allI impI)
  fix w w' r
  assume run: "bnd m f w = (w', r)"
  obtain w1 r1 where m: "m w = (w1, r1)" by (cases "m w")
  from assms(1) m obtain e1 where 1: "heap w1 = heap w" "nxt w1 = nxt w"
    "trace w1 = trace w @ e1" "filter is_LayerPlot e1 = []"
    unfolding quiet_def by blast
  show "heap w' = heap w \<and> nxt w' = nxt w
     \<and> (\<exists>evs. trace w' = trace w @ evs \<and> filter is_LayerPlot evs = [])"
  proof (cases r1)
    case (Inl e)
    with run m have "w' = w1" by (simp add: bnd_def)
    with 1 show ?thesis by auto
  next
    case (Inr a)
    with run m have "f a w1 = (w', r)" by (simp add: bnd_def)
    with assms(2)[of a] obtain e2 where "heap w' = heap w1" "nxt w' = nxt w1"
      "trace w' = trace w1 @ e2" "filter is_LayerPlot e2 = []"
      unfolding quiet_def by blast
    with 1 show ?thesis by auto
  qed
qed

lemma quiet_getattr [intro!, simp]: "quiet (getattr d k)"
  unfolding getattr_def by (intro quiet_bnd quiet_attr quiet_deref)

lemma quiet_if [intro!]: "quiet a \<Longrightarrow> quiet b \<Longrightarrow> quiet (if c then a else b)"
  by simp

lemma quiet_waivable [intro!]:
  "quiet a \<Longrightarrow> (\<And>b. quiet (f b)) \<Longrightarrow> quiet (case x of Waive \<Rightarrow> a | Explicit b \<Rightarrow> f b)"
  by (cases x) simp_all

lemma quiet_set_breaks: "quiet (set_breaks panel idx ax)"
  unfolding set_breaks_def by (intro quiet_bnd quiet_waivable quiet_lift quiet_ret quiet_emit) simp_all

lemma quiet_set_labels: "quiet (set_labels panel idx ax)"
  unfolding set_labels_def by (intro quiet_bnd quiet_waivable quiet_lift quiet_ret quiet_emit) simp_all

lemma quiet_set_axis_attributes: "quiet (set_axis_attributes c plot cols pnl ax)"
  unfolding set_axis_attributes_def Let_def
  by (intro quiet_bnd quiet_lift quiet_getattr quiet_attr quiet_emit) simp_all

lemma quiet_draw_facet_label: "quiet (draw_facet_label c plot cols pnl ax)"
  unfolding draw_facet_label_def Let_def
  by (intro quiet_bnd quiet_if quiet_lift quiet_getattr quiet_attr quiet_emit quiet_ret) simp_all


lemma select_eq_Inr: "select_eq d ''PANEL'' v = Inr sub \<Longrightarrow> sub = panel_rows d v"
  unfolding select_eq_def panel_rows_def row_get_def
  by (auto split: option.splits if_splits intro!: filter_cong arg_cong[where f="\<lambda>rs. d\<lparr>rows := rs\<rparr>"])

lemma plot_layers_loop:
  "for_each (\<lambda>zorder (l, d). bnd (lift (select_eq d ''PANEL'' pid))
       (\<lambda>sub. emit (LayerPlot ax l sub sx sy zorder))) z0 lds w = (w', Inr rs)
   \<Longrightarrow> heap w' = heap w \<and> nxt w' = nxt w
     \<and> trace w' = trace w @ map (\<lambda>(z, l, d). LayerPlot ax l (panel_rows d pid) sx sy z)
                              (zip [z0 ..< z0 + length lds] lds)"
proof (induction lds arbitrary: z0 w rs)
  case Nil
  then show ?case by (simp add: ret_def)
next
  case (Cons ld lds)
  obtain l d where ld: "ld = (l, d)" by (cases ld)
  let ?f = "\<lambda>zorder (l, d). bnd (lift (select_eq d ''PANEL'' pid))
       (\<lambda>sub. emit (LayerPlot ax l sub sx sy zorder))"
  from Cons.prems have "bnd (?f z0 ld) (\<lambda>r. bnd (for_each ?f (Suc z0) lds) (\<lambda>rs. ret (r # rs))) w
      = (w', Inr rs)"
    by (simp only: for_each.simps)
  then obtain w1 r1 w2 rs1 where
    h: "?f z0 ld w = (w1, Inr r1)" and rest: "for_each ?f (Suc z0) lds w1 = (w2, Inr rs1)"
    and fin: "ret (r1 # rs1) w2 = (w', Inr rs)"
    unfolding bnd_Inr by blast
  from h obtain sub where s: "select_eq d ''PANEL'' pid = Inr sub"
    and w1: "w1 = w\<lparr>trace := trace w @ [LayerPlot ax l sub sx sy z0]\<rparr>"
    by (auto simp: ld emit_def split: sum.splits)
  from fin have w2: "w2 = w'" by (simp add: ret_def)
  from rest w2 have "for_each ?f (Suc z0) lds w1 = (w', Inr rs1)" by simp
  from Cons.IH[OF this] select_eq_Inr[OF s] w1 show ?case
    by (simp add: ld upt_conv_Cons del: upt_Suc)
qed

lemma zip_upt_trunc: "length xs \<le> n \<Longrightarrow> zip [a ..< a + n] xs = zip [a ..< a + length xs] xs"
proof (induction xs arbitrary: a n)
  case Nil
  then show ?case by simp
next
  case (Cons x xs)
  then obtain m where n: "n = Suc m" by (cases n) auto
  with Cons.prems have "length xs \<le> m" by simp
  from Cons.IH[OF this, of "Suc a"] show ?case
    by (simp add: n upt_conv_Cons del: upt_Suc)
qed

lemma bnd_quiet_tail:
  assumes "bnd m f w = (w', Inr r)" and "\<And>x. quiet (f x)"
    and "\<And>w1 a. m w = (w1, Inr a) \<Longrightarrow>
            heap w1 = heap w \<and> nxt w1 = nxt w \<and> (\<exists>evs. trace w1 = trace w @ evs \<and> filter is_LayerPlot evs = P)"
  shows "heap w' = heap w \<and> nxt w' = nxt w
     \<and> (\<exists>evs. trace w' = trace w @ evs \<and> filter is_LayerPlot evs = P)"
proof -
  from assms(1) obtain w1 a where m: "m w = (w1, Inr a)" and f: "f a w1 = (w', Inr r)"
    by (auto simp: bnd_Inr)
  from assms(3)[OF m] obtain e1 where 1: "heap w1 = heap w" "nxt w1 = nxt w"
    "trace w1 = trace w @ e1" "filter is_LayerPlot e1 = P" by blast
  from assms(2)[of a] f obtain e2 where "heap w' = heap w1" "nxt w' = nxt w1"
    "trace w' = trace w1 @ e2" "filter is_LayerPlot e2 = []"
    unfolding quiet_def by blast
  with 1 show ?thesis by auto
qed

lemma draw_panel_plots:
  assumes run: "draw_panel c plot dat panel ax pnl w = (w', Inr u)"
    and la: "map_of plot ''layers'' = Some la" and ls: "heap w la = Layers ls"
  shows "heap w' = heap w \<and> nxt w' = nxt w
     \<and> (\<exists>evs. trace w' = trace w @ evs
           \<and> filter is_LayerPlot evs = expected_layer_plots panel ls dat (ax, pnl))"
proof -
  let ?cols = "columns (layout panel)"
  from run la ls obtain pid ix iy sx sy where
    v: "row_get ?cols pnl ''PANEL'' = Inr pid" "row_get ?cols pnl ''SCALE_X'' = Inr ix"
       "row_get ?cols pnl ''SCALE_Y'' = Inr iy" "py_index (x_scales panel) (ix - 1) = Inr sx"
       "py_index (y_scales panel) (iy - 1) = Inr sy"
    by (auto simp: draw_panel_def Let_def split: sum.splits)
  define E where "E = map (\<lambda>(z, l, d). LayerPlot ax l (panel_rows d pid) sx sy z)
                 (zip [1 ..< 1 + length (zip ls dat)] (zip ls dat))"
  have e: "expected_layer_plots panel ls dat (ax, pnl) = filter is_LayerPlot E"
    using zip_upt_trunc[of "zip ls dat" "length ls" 1]
    by (simp add: E_def expected_layer_plots_def v filter_map o_def split_def del: upt_Suc)
  have "heap w' = heap w \<and> nxt w' = nxt w
     \<and> (\<exists>evs. trace w' = trace w @ evs \<and> filter is_LayerPlot evs = filter is_LayerPlot E)"
    using run la ls v
    apply (simp add: draw_panel_def Let_def)
    apply (erule bnd_quiet_tail)
     apply (intro quiet_bnd quiet_if quiet_lift quiet_getattr quiet_attr quiet_emit quiet_ret
        quiet_set_breaks quiet_set_labels quiet_set_axis_attributes quiet_draw_facet_label; simp)
    apply (simp add: plot_layers_def)
    apply (drule plot_layers_loop)
    apply (simp add: E_def)
    done
  then show ?thesis by (simp add: e)
qed


lemma map_of_setattr:
  "map_of (setattr d k a) k' = (if k' = k then Some a else map_of d k')"
  by (induction d) auto

lemma draw_panels_loop:
  assumes la: "map_of plot ''layers'' = Some la"
  shows "for_each (\<lambda>_ (ax, pnl). draw_panel c plot dat panel ax pnl) i xs w = (w', Inr rs)
    \<Longrightarrow> heap w la = Layers ls
    \<Longrightarrow> heap w' = heap w \<and> nxt w' = nxt w
      \<and> (\<exists>evs. trace w' = trace w @ evs
            \<and> filter is_LayerPlot evs = concat (map (expected_layer_plots panel ls dat) xs))"
proof (induction xs arbitrary: i w rs)
  case Nil
  then show ?case by (simp add: ret_def)
next
  case (Cons x xs)
  obtain ax pnl where x: "x = (ax, pnl)" by (cases x)
  let ?f = "\<lambda>_ (ax, pnl). draw_panel c plot dat panel ax pnl"
  from Cons.prems(1) have "bnd (?f i x) (\<lambda>r. bnd (for_each ?f (Suc i) xs) (\<lambda>rs. ret (r # rs))) w
      = (w', Inr rs)"
    by (simp only: for_each.simps)
  then obtain w1 r1 w2 rs1 where
    h: "?f i x w = (w1, Inr r1)" and rest: "for_each ?f (Suc i) xs w1 = (w2, Inr rs1)"
    and fin: "ret (r1 # rs1) w2 = (w', Inr rs)"
    unfolding bnd_Inr by blast
  from fin have w2: "w2 = w'" by (simp add: ret_def)
  from h have "draw_panel c plot dat panel ax pnl w = (w1, Inr r1)" by (simp add: x)
  from draw_panel_plots[OF this la Cons.prems(2)] obtain e1 where
    1: "heap w1 = heap w" "nxt w1 = nxt w" "trace w1 = trace w @ e1"
       "filter is_LayerPlot e1 = expected_layer_plots panel ls dat (ax, pnl)" by blast
  from rest w2 have "for_each ?f (Suc i) xs w1 = (w', Inr rs1)" by simp
  from Cons.IH[OF this] 1 Cons.prems(2) obtain e2 where
    "heap w' = heap w1" "nxt w' = nxt w1" "trace w' = trace w1 @ e2"
    "filter is_LayerPlot e2 = concat (map (expected_layer_plots panel ls dat) xs)" by auto
  with 1 show ?case by (auto simp: x)
qed

text \<open>
  C6. When \<^verbatim>\<open>draw\<close> completes on what the build returned, the calls of \<^verbatim>\<open>l.plot\<close> that
  it made are, in this order: for each axes and row of the layout table, in table order,
  and for each layer in registration order with its dataset, one call with the z-order
  counted from 1, the rows of the dataset whose \<^verbatim>\<open>PANEL\<close> equals the row's, and the x and y
  scales that the row's \<^verbatim>\<open>SCALE_X\<close> and \<^verbatim>\<open>SCALE_Y\<close> select.
\<close>

theorem draw_layer_plots:
  assumes run: "draw_built c (dat, panel, plot) w = (w', Inr res)"
    and la: "map_of plot ''layers'' = Some la" "la < nxt w" "heap w la = Layers ls"
    and fa: "map_of plot ''facet'' = Some fa"
      "facet_nrow c (heap w fa) = Inr nrow" "facet_ncol c (heap w fa) = Inr ncol"
  shows "filter is_LayerPlot (drop (length (trace w)) (trace w')) =
           concat (map (expected_layer_plots panel ls dat)
                    (zip [0 ..< nat (nrow * ncol)] (rows (layout panel))))"
proof -
  define P where "P = concat (map (expected_layer_plots panel ls dat)
                    (zip [0 ..< nat (nrow * ncol)] (rows (layout panel))))"
  define w3 where "w3 = w\<lparr>trace := trace w @ [Subplots nrow ncol],
     heap := (heap w)(nxt w := Figure, Suc (nxt w) := Axes [0 ..< nat (nrow * ncol)]),
     nxt := Suc (Suc (nxt w))\<rparr>"
  have h3: "heap w3 la = Layers ls"
    using la by (simp add: w3_def)
  have la': "map_of (setattr (setattr plot ''axs'' (Suc (nxt w))) ''fig'' (nxt w)) ''layers''
      = Some la"
    using la by (simp add: map_of_setattr)
  have loop: "\<And>w1 a. for_each (\<lambda>_ (ax, pnl). draw_panel c
        (setattr (setattr plot ''axs'' (Suc (nxt w))) ''fig'' (nxt w)) dat panel ax pnl) 0
        (zip [0 ..< nat (nrow * ncol)] (rows (layout panel))) w3 = (w1, Inr a)
     \<Longrightarrow> heap w1 = heap w3 \<and> nxt w1 = nxt w3
       \<and> (\<exists>evs. trace w1 = trace w3 @ evs \<and> filter is_LayerPlot evs = P)"
    unfolding P_def by (rule draw_panels_loop[OF la' _ h3])
  have "heap w' = heap w3 \<and> nxt w' = nxt w3
     \<and> (\<exists>evs. trace w' = trace w3 @ evs \<and> filter is_LayerPlot evs = P)"
    using run la fa
    apply (simp add: draw_built_def Let_def throw_def split: if_splits)
    apply (fold w3_def)
    apply (erule bnd_quiet_tail)
     apply (intro quiet_bnd quiet_getattr quiet_attr quiet_emit quiet_ret; simp)
    apply (erule loop)
    done
  then obtain evs where "trace w' = trace w3 @ evs" "filter is_LayerPlot evs = P" by blast
  then show ?thesis
    by (simp add: w3_def P_def)
qed



lemma example_draw_built:
  "snd (draw_built example_collab ([example_data, example_layer_data], example_panel, example_plot)
      example_world) =
   Inr ([example_data, example_layer_data], example_panel,
        example_plot @ [(''axs'', 10), (''fig'', 9)])"
  by code_simp

theorem draw_layer_plots_witness:
  "filter is_LayerPlot (trace (fst (draw_built example_collab
       ([example_data, example_layer_data], example_panel, example_plot) example_world))) =
   [LayerPlot 0 (example_layers ! 0) (example_data\<lparr>rows := [[1, 1, 2], [1, 5, 6]]\<rparr>) 20 21 1,
    LayerPlot 0 (example_layers ! 1) (example_layer_data\<lparr>rows := []\<rparr>) 20 21 2,
    LayerPlot 1 (example_layers ! 0) (example_data\<lparr>rows := [[2, 3, 4]]\<rparr>) 20 21 1,
    LayerPlot 1 (example_layers ! 1) (example_layer_data\<lparr>rows := [[2, 7, 8]]\<rparr>) 20 21 2]"
proof -
  let ?built = "([example_data, example_layer_data], example_panel, example_plot)"
  let ?run = "draw_built example_collab ?built example_world"
  have run: "?run = (fst ?run, Inr ([example_data, example_layer_data], example_panel,
        example_plot @ [(''axs'', 10), (''fig'', 9)]))"
    using example_draw_built by (cases ?run) simp
  have la: "map_of example_plot ''layers'' = Some 5" "5 < nxt example_world"
    "heap example_world 5 = Layers example_layers"
    by (simp_all add: example_plot_def example_world_def)
  have fa: "map_of example_plot ''facet'' = Some 3"
    "facet_nrow example_collab (heap example_world 3) = Inr 1"
    "facet_ncol example_collab (heap example_world 3) = Inr 2"
    by (simp_all add: example_plot_def example_collab_def)
  have t: "trace example_world = []"
    by (simp add: example_world_def)
  show ?thesis
    using draw_layer_plots [OF run la fa]
    by (simp add: t expected_layer_plots_def panel_rows_def row_get_def py_index_def
        example_panel_def example_layout_def example_layers_def example_data_def
        example_layer_data_def upt_conv_Cons del: upt_Suc)
qed

section \<open>The tick calls of the draw loop\<close>

lemma bnd_InrE:
  assumes "bnd m f w = (w', Inr r)"
  obtains w1 a where "m w = (w1, Inr a)" "f a w1 = (w', Inr r)"
  using assms by (auto simp: bnd_Inr)

lemma bnd_run: "m w = (w1, Inr a) \<Longrightarrow> bnd m f w = f a w1"
  by (simp add: bnd_def)

lemma tickless_ret: "tickless (ret x)"
  by (simp add: tickless_def ret_def)

lemma tickless_throw: "tickless (throw e)"
  by (simp add: tickless_def throw_def)

lemma tickless_lift: "tickless (lift x)"
  by (simp add: tickless_def lift_def)

lemma tickless_deref: "tickless (deref a)"
  by (simp add: tickless_def deref_def)

lemma tickless_attr: "tickless (attr d k)"
  by (simp add: attr_def tickless_ret tickless_throw split: option.splits)

lemma tickless_emit: "\<not> is_tick_call e \<Longrightarrow> tickless (emit e)"
  by (simp add: tickless_def emit_def)

lemma tickless_bnd:
  assumes "tickless m" and "\<And>x. tickless (f x)"
  shows "tickless (bnd m f)"
  unfolding tickless_def
proof (intro allI impI)
  fix w w' r
  assume run: "bnd m f w = (w', r)"
  obtain w1 r1 where m: "m w = (w1, r1)" by (cases "m w")
  from assms(1) m obtain e1 where 1: "heap w1 = heap w" "nxt w1 = nxt w"
    "trace w1 = trace w @ e1" "filter is_tick_call e1 = []"
    unfolding tickless_def by blast
  show "heap w' = heap w \<and> nxt w' = nxt w
     \<and> (\<exists>evs. trace w' = trace w @ evs \<and> filter is_tick_call evs = [])"
  proof (cases r1)
    case (Inl e)
    with run m have "w' = w1" by (simp add: bnd_def)
    with 1 show ?thesis by auto
  next
    case (Inr a)
    with run m have "f a w1 = (w', r)" by (simp add: bnd_def)
    with assms(2)[of a] obtain e2 where "heap w' = heap w1" "nxt w' = nxt w1"
      "trace w' = trace w1 @ e2" "filter is_tick_call e2 = []"
      unfolding tickless_def by blast
    with 1 show ?thesis by auto
  qed
qed

lemma tickless_getattr: "tickless (getattr d k)"
  unfolding getattr_def by (intro tickless_bnd tickless_attr tickless_deref)

lemma tickless_if: "tickless a \<Longrightarrow> tickless b \<Longrightarrow> tickless (if c then a else b)"
  by simp

lemma tickless_prod: "(\<And>a b. tickless (f a b)) \<Longrightarrow> tickless (case x of (a, b) \<Rightarrow> f a b)"
  by (cases x) simp

lemma tickless_for_each:
  assumes "\<And>i x. tickless (f i x)"
  shows "tickless (for_each f i xs)"
  by (induction xs arbitrary: i) (auto intro!: tickless_ret tickless_bnd assms)

lemmas tickless_intros =
  tickless_bnd tickless_ret tickless_throw tickless_lift tickless_deref tickless_attr
  tickless_getattr tickless_if tickless_prod tickless_for_each

lemma tickless_plot_layers: "tickless (plot_layers lds pid sx sy ax)"
  unfolding plot_layers_def
  by (intro tickless_intros tickless_emit) simp

lemma tickless_draw_facet_label: "tickless (draw_facet_label c plot cols pnl ax)"
  unfolding draw_facet_label_def Let_def
  by (intro tickless_intros tickless_emit) simp_all

text \<open>What \<^verbatim>\<open>set_breaks\<close> and \<^verbatim>\<open>set_labels\<close> do for an entry of the ranges.\<close>

lemma set_breaks_run:
  assumes "py_index (ranges panel) idx = Inr rg"
  shows "set_breaks panel idx ax w =
           (w\<lparr>trace := trace w
               @ (case x_breaks rg of Waive \<Rightarrow> [] | Explicit b \<Rightarrow> [SetXticks ax b])
               @ (case y_breaks rg of Waive \<Rightarrow> [] | Explicit b \<Rightarrow> [SetYticks ax b])\<rparr>, Inr ())"
  using assms
  by (simp add: set_breaks_def ret_def emit_def split: waivable.splits)

lemma set_labels_run:
  assumes "py_index (ranges panel) idx = Inr rg"
  shows "set_labels panel idx ax w =
           (w\<lparr>trace := trace w
               @ (case x_labels rg of Waive \<Rightarrow> [] | Explicit b \<Rightarrow> [SetXticklabels ax b])
               @ (case y_labels rg of Waive \<Rightarrow> [] | Explicit b \<Rightarrow> [SetYticklabels ax b])\<rparr>, Inr ())"
  using assms
  by (simp add: set_labels_def ret_def emit_def split: waivable.splits)

lemma set_axis_attributes_run:
  assumes "set_axis_attributes c plot cols pnl ax w = (w', Inr u)"
    and "map_of plot ''facet'' = Some fa"
  shows "\<exists>r cl nrow. row_get cols pnl ''ROW'' = Inr r \<and> row_get cols pnl ''COL'' = Inr cl
           \<and> facet_nrow c (heap w fa) = Inr nrow
           \<and> w' = w\<lparr>trace := trace w @ [PostPlotCallback ax (edge_params (r = nrow) ''bottom'')
                                            (edge_params (cl = 1) ''left'')]\<rparr>"
  using assms
  by (auto simp: set_axis_attributes_def Let_def edge_params_def[symmetric] emit_def
      split: sum.splits option.splits)

lemma filter_tick_setters: "filter is_tick_call (tick_setters rg ax) = tick_setters rg ax"
  by (simp add: tick_setters_def split: waivable.splits)

lemma draw_panel_ticks:
  assumes run: "draw_panel c plot dat panel ax pnl w = (w', Inr u)"
    and fa: "map_of plot ''facet'' = Some fa" "facet_nrow c (heap w fa) = Inr nrow"
  shows "heap w' = heap w \<and> nxt w' = nxt w
     \<and> (\<exists>evs. trace w' = trace w @ evs
           \<and> filter is_tick_call evs = expected_tick_calls panel nrow (ax, pnl))"
proof -
  let ?cols = "columns (layout panel)"
  from run obtain pid ix iy sx sy la ls where
    v: "row_get ?cols pnl ''PANEL'' = Inr pid" "row_get ?cols pnl ''SCALE_X'' = Inr ix"
       "row_get ?cols pnl ''SCALE_Y'' = Inr iy" "py_index (x_scales panel) (ix - 1) = Inr sx"
       "py_index (y_scales panel) (iy - 1) = Inr sy"
       "map_of plot ''layers'' = Some la" "as_layers (heap w la) = Inr ls"
    by (auto simp: draw_panel_def Let_def split: sum.splits option.splits)
  let ?tail = "\<lambda>u::unit.
     bnd (if is_scale_discrete c sx then emit (GridOff ax ''x'') else ret ()) (\<lambda>_.
     bnd (if is_scale_discrete c sy then emit (GridOff ax ''y'') else ret ()) (\<lambda>_.
     bnd (getattr plot ''facet'') (\<lambda>fv.
     if facet_kind c fv = ''facet_grid'' \<or> facet_kind c fv = ''facet_wrap''
     then draw_facet_label c plot ?cols pnl ax
     else ret ())))"
  let ?mid = "\<lambda>u::unit list.
     bnd (lift (py_index (ranges panel) (pid - 1))) (\<lambda>rg.
     bnd (emit (SetXlim ax (range_x rg))) (\<lambda>_.
     bnd (lift (py_index (ranges panel) (pid - 1))) (\<lambda>rg.
     bnd (emit (SetYlim ax (range_y rg))) (\<lambda>_.
     bnd (set_breaks panel (pid - 1) ax) (\<lambda>_.
     bnd (set_labels panel (pid - 1) ax) (\<lambda>_.
     bnd (set_axis_attributes c plot ?cols pnl ax) ?tail))))))"
  from run v have "bnd (plot_layers (zip ls dat) pid sx sy ax) ?mid w = (w', Inr u)"
    by (simp add: draw_panel_def Let_def)
  then obtain w1 x1 where pl: "plot_layers (zip ls dat) pid sx sy ax w = (w1, Inr x1)"
    and mid: "?mid x1 w1 = (w', Inr u)"
    by (rule bnd_InrE)
  from pl tickless_plot_layers[of "zip ls dat" pid sx sy ax] obtain e1 where
    1: "heap w1 = heap w" "nxt w1 = nxt w" "trace w1 = trace w @ e1"
       "filter is_tick_call e1 = []"
    unfolding tickless_def by blast
  from mid obtain rg where rg: "py_index (ranges panel) (pid - 1) = Inr rg"
    by (auto split: sum.splits)
  define w2 where "w2 = w1\<lparr>trace := trace w1 @ [SetXlim ax (range_x rg), SetYlim ax (range_y rg)]
                             @ tick_setters rg ax\<rparr>"
  let ?w1 = "w1\<lparr>trace := trace w1 @ [SetXlim ax (range_x rg), SetYlim ax (range_y rg)]\<rparr>"
  have "?mid x1 w1 =
      bnd (set_breaks panel (pid - 1) ax) (\<lambda>_.
      bnd (set_labels panel (pid - 1) ax) (\<lambda>_.
      bnd (set_axis_attributes c plot ?cols pnl ax) ?tail)) ?w1"
    by (simp only: bnd_lift bnd_emit rg sum.case) (rule arg_cong, simp)
  also have "\<dots> = bnd (set_axis_attributes c plot ?cols pnl ax) ?tail w2"
    by (simp only: bnd_run[OF set_breaks_run[OF rg]] bnd_run[OF set_labels_run[OF rg]])
       (simp add: w2_def tick_setters_def)
  finally have "bnd (set_axis_attributes c plot ?cols pnl ax) ?tail w2 = (w', Inr u)"
    using mid by simp
  then obtain w3 x3 where sa: "set_axis_attributes c plot ?cols pnl ax w2 = (w3, Inr x3)"
    and tail: "?tail x3 w3 = (w', Inr u)"
    by (rule bnd_InrE)
  have h2: "heap w2 = heap w" by (simp add: w2_def 1)
  from set_axis_attributes_run[OF sa fa(1)] fa(2) h2 obtain r cl where
    rc: "row_get ?cols pnl ''ROW'' = Inr r" "row_get ?cols pnl ''COL'' = Inr cl"
    and w3: "w3 = w2\<lparr>trace := trace w2 @ [PostPlotCallback ax (edge_params (r = nrow) ''bottom'')
                                            (edge_params (cl = 1) ''left'')]\<rparr>"
    by auto
  have "tickless (?tail x3)"
    by (intro tickless_intros tickless_emit tickless_draw_facet_label) simp_all
  with tail obtain e4 where
    4: "heap w' = heap w3" "nxt w' = nxt w3" "trace w' = trace w3 @ e4"
       "filter is_tick_call e4 = []"
    unfolding tickless_def by blast
  have "expected_tick_calls panel nrow (ax, pnl) = tick_setters rg ax
      @ [PostPlotCallback ax (edge_params (r = nrow) ''bottom'') (edge_params (cl = 1) ''left'')]"
    by (simp add: expected_tick_calls_def v rc rg)
  with 1 4 w3 show ?thesis
    by (simp add: w2_def filter_tick_setters)
qed


lemma draw_panels_ticks_loop:
  assumes fa: "map_of plot ''facet'' = Some fa"
  shows "for_each (\<lambda>_ (ax, pnl). draw_panel c plot dat panel ax pnl) i xs w = (w', Inr rs)
    \<Longrightarrow> facet_nrow c (heap w fa) = Inr nrow
    \<Longrightarrow> heap w' = heap w \<and> nxt w' = nxt w
      \<and> (\<exists>evs. trace w' = trace w @ evs
            \<and> filter is_tick_call evs = concat (map (expected_tick_calls panel nrow) xs))"
proof (induction xs arbitrary: i w rs)
  case Nil
  then show ?case by (simp add: ret_def)
next
  case (Cons x xs)
  obtain ax pnl where x: "x = (ax, pnl)" by (cases x)
  let ?f = "\<lambda>_ (ax, pnl). draw_panel c plot dat panel ax pnl"
  from Cons.prems(1) have "bnd (?f i x) (\<lambda>r. bnd (for_each ?f (Suc i) xs) (\<lambda>rs. ret (r # rs))) w
      = (w', Inr rs)"
    by (simp only: for_each.simps)
  then obtain w1 r1 where h: "?f i x w = (w1, Inr r1)"
    and rest: "bnd (for_each ?f (Suc i) xs) (\<lambda>rs. ret (r1 # rs)) w1 = (w', Inr rs)"
    by (rule bnd_InrE)
  from rest obtain w2 rs1 where loop: "for_each ?f (Suc i) xs w1 = (w2, Inr rs1)"
    and fin: "ret (r1 # rs1) w2 = (w', Inr rs)"
    by (rule bnd_InrE)
  from fin have w2: "w2 = w'" by (simp add: ret_def)
  from h have "draw_panel c plot dat panel ax pnl w = (w1, Inr r1)" by (simp add: x)
  from draw_panel_ticks[OF this fa Cons.prems(2)] obtain e1 where
    1: "heap w1 = heap w" "nxt w1 = nxt w" "trace w1 = trace w @ e1"
       "filter is_tick_call e1 = expected_tick_calls panel nrow (ax, pnl)" by blast
  from loop w2 have "for_each ?f (Suc i) xs w1 = (w', Inr rs1)" by simp
  from Cons.IH[OF this] 1 Cons.prems(2) obtain e2 where
    "heap w' = heap w1" "nxt w' = nxt w1" "trace w' = trace w1 @ e2"
    "filter is_tick_call e2 = concat (map (expected_tick_calls panel nrow) xs)" by auto
  with 1 show ?case by (auto simp: x)
qed

lemma bnd_tickless_tail:
  assumes "bnd m f w = (w', Inr r)" and "\<And>x. tickless (f x)"
    and "\<And>w1 a. m w = (w1, Inr a) \<Longrightarrow>
            heap w1 = heap w \<and> nxt w1 = nxt w
            \<and> (\<exists>evs. trace w1 = trace w @ evs \<and> filter is_tick_call evs = P)"
  shows "heap w' = heap w \<and> nxt w' = nxt w
     \<and> (\<exists>evs. trace w' = trace w @ evs \<and> filter is_tick_call evs = P)"
proof -
  from assms(1) obtain w1 a where m: "m w = (w1, Inr a)" and f: "f a w1 = (w', Inr r)"
    by (rule bnd_InrE)
  from assms(3)[OF m] obtain e1 where 1: "heap w1 = heap w" "nxt w1 = nxt w"
    "trace w1 = trace w @ e1" "filter is_tick_call e1 = P" by blast
  from assms(2)[of a] f obtain e2 where "heap w' = heap w1" "nxt w' = nxt w1"
    "trace w' = trace w1 @ e2" "filter is_tick_call e2 = []"
    unfolding tickless_def by blast
  with 1 show ?thesis by auto
qed

text \<open>
  C9, as the code has it. When \<^verbatim>\<open>draw\<close> completes on what the build returned, the tick
  calls that it made are, for each axes and row of the layout table, in table order: a
  call of \<^verbatim>\<open>set_xticks\<close>, \<^verbatim>\<open>set_yticks\<close>, \<^verbatim>\<open>set_xticklabels\<close>, \<^verbatim>\<open>set_yticklabels\<close> exactly
  for each field of the entry of the panel's ranges (the one at the row's \<^verbatim>\<open>PANEL\<close> less
  one) that is not the waive sentinel, with the field as the argument; and then, whatever
  the entry holds, one call of the theme's \<^verbatim>\<open>post_plot_callback\<close>, which asks for no ticks
  and an empty list of tick labels on the x axis of a panel that is not in the bottom row,
  and on the y axis of a panel that is not in the first column.
\<close>

theorem draw_tick_calls:
  assumes run: "draw_built c (dat, panel, plot) w = (w', Inr res)"
    and fa: "map_of plot ''facet'' = Some fa" "fa < nxt w"
      "facet_nrow c (heap w fa) = Inr nrow" "facet_ncol c (heap w fa) = Inr ncol"
  shows "filter is_tick_call (drop (length (trace w)) (trace w')) =
           concat (map (expected_tick_calls panel nrow)
                    (zip [0 ..< nat (nrow * ncol)] (rows (layout panel))))"
proof -
  define P where "P = concat (map (expected_tick_calls panel nrow)
                    (zip [0 ..< nat (nrow * ncol)] (rows (layout panel))))"
  define w3 where "w3 = w\<lparr>trace := trace w @ [Subplots nrow ncol],
     heap := (heap w)(nxt w := Figure, Suc (nxt w) := Axes [0 ..< nat (nrow * ncol)]),
     nxt := Suc (Suc (nxt w))\<rparr>"
  have h3: "facet_nrow c (heap w3 fa) = Inr nrow"
    using fa by (simp add: w3_def)
  have fa': "map_of (setattr (setattr plot ''axs'' (Suc (nxt w))) ''fig'' (nxt w)) ''facet''
      = Some fa"
    using fa by (simp add: map_of_setattr)
  have loop: "\<And>w1 a. for_each (\<lambda>_ (ax, pnl). draw_panel c
        (setattr (setattr plot ''axs'' (Suc (nxt w))) ''fig'' (nxt w)) dat panel ax pnl) 0
        (zip [0 ..< nat (nrow * ncol)] (rows (layout panel))) w3 = (w1, Inr a)
     \<Longrightarrow> heap w1 = heap w3 \<and> nxt w1 = nxt w3
       \<and> (\<exists>evs. trace w1 = trace w3 @ evs \<and> filter is_tick_call evs = P)"
    unfolding P_def by (rule draw_panels_ticks_loop[OF fa' _ h3])
  have "heap w' = heap w3 \<and> nxt w' = nxt w3
     \<and> (\<exists>evs. trace w' = trace w3 @ evs \<and> filter is_tick_call evs = P)"
    using run fa
    apply (simp add: draw_built_def Let_def throw_def split: if_splits)
    apply (fold w3_def)
    apply (erule bnd_tickless_tail)
     apply (intro tickless_intros tickless_emit; simp)
    apply (erule loop)
    done
  then obtain evs where "trace w' = trace w3 @ evs" "filter is_tick_call evs = P" by blast
  then show ?thesis
    by (simp add: w3_def P_def)
qed

theorem draw_tick_calls_witness:
  "filter is_tick_call (trace (fst (draw_built example_collab
       ([example_data, example_layer_data], example_panel, example_plot) example_world))) =
   [SetXticks 0 [0, 5, 10], SetXticklabels 0 [''0'', ''5'', ''10''],
    PostPlotCallback 0 [(''set_ticks_position'', ''bottom'')] [(''set_ticks_position'', ''left'')],
    SetXticks 1 [0, 5, 10], SetXticklabels 1 [''0'', ''5'', ''10''],
    PostPlotCallback 1 [(''set_ticks_position'', ''bottom'')]
      [(''set_ticks_position'', ''none''), (''set_ticklabels'', [])]]"
proof -
  let ?built = "([example_data, example_layer_data], example_panel, example_plot)"
  let ?run = "draw_built example_collab ?built example_world"
  have run: "?run = (fst ?run, Inr ([example_data, example_layer_data], example_panel,
        example_plot @ [(''axs'', 10), (''fig'', 9)]))"
    using example_draw_built by (cases ?run) simp
  have fa: "map_of example_plot ''facet'' = Some 3" "3 < nxt example_world"
    "facet_nrow example_collab (heap example_world 3) = Inr 1"
    "facet_ncol example_collab (heap example_world 3) = Inr 2"
    by (simp_all add: example_plot_def example_collab_def example_world_def)
  have t: "trace example_world = []"
    by (simp add: example_world_def)
  show ?thesis
    using draw_tick_calls [OF run fa]
    by (simp add: t expected_tick_calls_def tick_setters_def edge_params_def row_get_def
        py_index_def example_panel_def example_layout_def example_range_def
        upt_conv_Cons del: upt_Suc)
qed

text \<open>
  The claim as the specification states it fails in its last part. In the small plot the
  labels of the y ticks are waived in the ranges of the second panel, and the draw loop
  still asks, through the theme's callback, for an empty list of tick labels on the y
  axis of its axes, since the panel is not in the first column: the choice of the
  drawing surface is not left as it was.
\<close>

theorem draw_tick_calls_counterexample:
  "y_labels (ranges example_panel ! 1) = Waive
   \<and> filter (sets_y_labels 1) (trace (fst (draw example_collab example_plot example_world))) =
       [PostPlotCallback 1 [(''set_ticks_position'', ''bottom'')]
          [(''set_ticks_position'', ''none''), (''set_ticklabels'', [])]]"
  by code_simp

section \<open>The deep copy and the frame of the build\<close>

lemma write_cells_other: "a \<notin> set as \<Longrightarrow> write_cells as vs h a = h a"
  by (induction as vs h rule: write_cells.induct) auto

lemma frames_ret: "frames F (ret x)"
  by (simp add: frames_def ret_def)

lemma frames_throw: "frames F (throw e)"
  by (simp add: frames_def throw_def)

lemma frames_lift: "frames F (lift x)"
  by (simp add: frames_def lift_def)

lemma frames_deref: "frames F (deref a)"
  by (simp add: frames_def deref_def)

lemma frames_emit: "frames F (emit e)"
  by (simp add: frames_def emit_def)

lemma frames_attr: "frames F (attr d k)"
  by (simp add: attr_def frames_ret frames_throw split: option.splits)

lemma frames_invoke: "set as \<subseteq> F \<Longrightarrow> frames F (invoke e as f)"
  by (auto simp: frames_def invoke_def Let_def split: sum.splits
           intro!: write_cells_other)

lemma frames_bnd:
  assumes "frames F m" and "\<And>x. frames F (f x)"
  shows "frames F (bnd m f)"
  unfolding frames_def
proof (intro allI impI)
  fix w w' r
  assume run: "bnd m f w = (w', r)"
  obtain w1 r1 where m: "m w = (w1, r1)" by (cases "m w")
  from assms(1) m have 1: "nxt w1 = nxt w" "\<forall>a. a \<notin> F \<longrightarrow> heap w1 a = heap w a"
    unfolding frames_def by blast+
  show "nxt w' = nxt w \<and> (\<forall>a. a \<notin> F \<longrightarrow> heap w' a = heap w a)"
  proof (cases r1)
    case (Inl e)
    with run m have "w' = w1" by (simp add: bnd_def)
    with 1 show ?thesis by simp
  next
    case (Inr x)
    with run m have "f x w1 = (w', r)" by (simp add: bnd_def)
    with assms(2)[of x] have "nxt w' = nxt w1" "\<forall>a. a \<notin> F \<longrightarrow> heap w' a = heap w1 a"
      unfolding frames_def by blast+
    with 1 show ?thesis by simp
  qed
qed

lemma frames_bnd_attr:
  assumes "\<And>a. map_of d k = Some a \<Longrightarrow> frames F (f a)"
  shows "frames F (bnd (attr d k) f)"
  using assms by (cases "map_of d k") (simp_all add: attr_def frames_throw)

lemma frames_if: "frames F a \<Longrightarrow> frames F b \<Longrightarrow> frames F (if c then a else b)"
  by simp

lemma frames_prod: "(\<And>a b. frames F (f a b)) \<Longrightarrow> frames F (case x of (a, b) \<Rightarrow> f a b)"
  by (cases x) simp

lemma frames_for_each:
  assumes "\<And>i x. frames F (f i x)"
  shows "frames F (for_each f i xs)"
  by (induction xs arbitrary: i) (auto intro!: frames_ret frames_bnd assms)

lemma frames_dlapply:
  assumes "\<And>i l d. frames F (f i l d)"
  shows "frames F (dlapply layers f dat)"
  unfolding dlapply_def
  by (intro frames_for_each frames_bnd frames_deref frames_lift frames_if frames_throw assms)

lemmas frames_intros =
  frames_bnd frames_ret frames_throw frames_lift frames_deref frames_emit frames_attr
  frames_if frames_prod frames_for_each frames_dlapply

lemma map_of_in_snd: "map_of d k = Some a \<Longrightarrow> a \<in> snd ` set d"
  by (force dest: map_of_SomeD)

lemma frames_layout_stage:
  assumes "layers \<in> F" "pdata \<in> F" "snd ` set plot \<subseteq> F"
  shows "frames F (layout_stage c plot layers pdata layer_dat all_data)"
  unfolding layout_stage_def Let_def
  using assms
  by (intro frames_bnd_attr frames_intros frames_invoke) (auto dest: map_of_in_snd)

lemma frames_aesthetics_stage:
  assumes "layers \<in> F" "scales \<in> F" "snd ` set plot \<subseteq> F"
  shows "frames F (aesthetics_stage c plot layers scales dat)"
  unfolding aesthetics_stage_def
  using assms
  by (intro frames_intros frames_invoke) auto

lemma frames_position_stage:
  assumes "scales \<in> F"
  shows "frames F (position_stage c scales pass panel dat)"
  unfolding position_stage_def
  using assms
  by (intro frames_intros frames_invoke) auto

lemma frames_statistics_stage:
  assumes "layers \<in> F" "scales \<in> F" "snd ` set plot \<subseteq> F"
  shows "frames F (statistics_stage c plot layers scales panel dat)"
  unfolding statistics_stage_def
  using assms
  by (intro frames_intros frames_invoke) auto

lemma frames_geometry_stage:
  assumes "layers \<in> F"
  shows "frames F (geometry_stage c layers dat)"
  unfolding geometry_stage_def
  using assms
  by (intro frames_intros frames_invoke) auto

lemma frames_non_position_stage:
  assumes "scales \<in> F"
  shows "frames F (non_position_stage c scales dat)"
  unfolding non_position_stage_def
  using assms
  by (intro frames_intros frames_invoke) auto

lemma frames_build_pipeline: "frames (snd ` set plot) (build_pipeline c plot)"
  unfolding build_pipeline_def Let_def
  by (intro frames_bnd_attr frames_intros frames_invoke frames_layout_stage
      frames_aesthetics_stage frames_position_stage frames_statistics_stage
      frames_geometry_stage frames_non_position_stage)
     (auto dest: map_of_in_snd)


lemma copied_mono:
  assumes "list_all2 (copied n0 w1 w') d res"
    and "\<forall>(k, a) \<in> set d. a < n0" and "\<forall>a < n0. heap w1 a = heap w a"
  shows "list_all2 (copied n0 w w') d res"
  using assms(1,2)
  by (induction rule: list_all2_induct) (auto simp: copied_def assms(3))

lemma deepcopy_items_spec:
  assumes "\<forall>(k, a) \<in> set d. a < n0" and "n0 \<le> nxt w" and "memo_ok n0 w memo"
  shows "\<exists>w' res. deepcopy_items d memo w = (w', Inr res)
           \<and> nxt w \<le> nxt w' \<and> (\<forall>a < nxt w. heap w' a = heap w a) \<and> trace w' = trace w
           \<and> list_all2 (copied n0 w w') d res"
  using assms
proof (induction d arbitrary: memo w)
  case Nil
  then show ?case by (simp add: ret_def)
next
  case (Cons x d)
  obtain key item where x: "x = (key, item)" by (cases x)
  from Cons.prems(1) have item: "item < n0" and rest: "\<forall>(k, a) \<in> set d. a < n0"
    by (auto simp: x)
  show ?case
  proof (cases "key \<in> shallow")
    case True
    from Cons.IH[OF rest Cons.prems(2,3)] obtain w' res where
      "deepcopy_items d memo w = (w', Inr res)" "nxt w \<le> nxt w'"
      "\<forall>a < nxt w. heap w' a = heap w a" "trace w' = trace w"
      "list_all2 (copied n0 w w') d res" by blast
    with True show ?thesis
      by (simp add: x bnd_def ret_def copied_def)
  next
    case False
    show ?thesis
    proof (cases "map_of memo item")
      case (Some a')
      then have "(item, a') \<in> set memo" by (rule map_of_SomeD)
      with Cons.prems(3) have a': "n0 \<le> a'" "a' < nxt w" "heap w a' = heap w item"
        by (auto simp: memo_ok_def)
      from Cons.IH[OF rest Cons.prems(2,3)] obtain w' res where
        r: "deepcopy_items d memo w = (w', Inr res)" "nxt w \<le> nxt w'"
        "\<forall>a < nxt w. heap w' a = heap w a" "trace w' = trace w"
        "list_all2 (copied n0 w w') d res" by blast
      with False Some a' show ?thesis
        by (simp add: x bnd_def ret_def copied_def deepcopy_cell_def)
    next
      case None
      define w1 where "w1 = w\<lparr>heap := (heap w)(nxt w := heap w item), nxt := Suc (nxt w)\<rparr>"
      have m1: "memo_ok n0 w1 ((item, nxt w) # memo)"
        using Cons.prems(2,3) item by (auto simp: memo_ok_def w1_def)
      have n1: "n0 \<le> nxt w1" using Cons.prems(2) by (simp add: w1_def)
      from Cons.IH[OF rest n1 m1] obtain w' res where
        r: "deepcopy_items d ((item, nxt w) # memo) w1 = (w', Inr res)" "nxt w1 \<le> nxt w'"
        "\<forall>a < nxt w1. heap w' a = heap w1 a" "trace w' = trace w1"
        "list_all2 (copied n0 w1 w') d res" by blast
      have old: "\<forall>a < n0. heap w1 a = heap w a"
        using Cons.prems(2) by (simp add: w1_def)
      from copied_mono[OF r(5) rest old] have tl: "list_all2 (copied n0 w w') d res" .
      have run: "deepcopy_items (x # d) memo w = (w', Inr ((key, nxt w) # res))"
        using False None r(1)
        by (simp add: x deepcopy_cell_def w1_def ret_def bnd_def alloc_def deref_def)
      have hd: "copied n0 w w' (key, item) (key, nxt w)"
        using False Cons.prems(2) r(2,3) by (simp add: copied_def w1_def)
      have "nxt w \<le> nxt w'" "\<forall>a < nxt w. heap w' a = heap w a" "trace w' = trace w"
        using r(2,3,4) by (simp_all add: w1_def)
      with run hd tl show ?thesis by (simp add: x)
    qed
  qed
qed

lemma copied_map_of:
  assumes "list_all2 (copied n0 w w') d res" and "map_of d k = Some a"
  shows "\<exists>a'. map_of res k = Some a' \<and> copied n0 w w' (k, a) (k, a')"
  using assms
  by (induction rule: list_all2_induct) (auto simp: copied_def split: if_splits)

lemma deepcopy_spec:
  assumes "\<forall>(k, a) \<in> set self. a < nxt w"
  shows "\<exists>w1 plot. deepcopy self w = (w1, Inr plot)
           \<and> nxt w \<le> nxt w1 \<and> (\<forall>a < nxt w. heap w1 a = heap w a)
           \<and> trace w1 = trace w @ [Deepcopy]
           \<and> list_all2 (copied (nxt w) w w1) self plot"
proof -
  let ?w0 = "w\<lparr>trace := trace w @ [Deepcopy]\<rparr>"
  have "memo_ok (nxt w) ?w0 []" by (simp add: memo_ok_def)
  from deepcopy_items_spec[of self "nxt w" ?w0 "[]", OF assms _ this]
  obtain w1 plot where r: "deepcopy_items self [] ?w0 = (w1, Inr plot)"
    "nxt ?w0 \<le> nxt w1" "\<forall>a < nxt ?w0. heap w1 a = heap ?w0 a" "trace w1 = trace ?w0"
    "list_all2 (copied (nxt w) ?w0 w1) self plot" by auto
  have "copied (nxt w) ?w0 w1 = copied (nxt w) w w1"
    by (simp add: copied_def)
  with r(5) have "list_all2 (copied (nxt w) w w1) self plot"
    by simp
  with r show ?thesis
    by (simp add: deepcopy_def)
qed


text \<open>
  C3. \<^verbatim>\<open>deepcopy(self)\<close> returns an object with the keys of \<^verbatim>\<open>self\<close> in which \<^verbatim>\<open>data\<close> and
  \<^verbatim>\<open>plot_env\<close> are bound to the cells of the original and every other attribute to a new
  cell, one that did not exist before, holding the value of the original's; and whatever
  \<^verbatim>\<open>plot_build\<close> returns, every cell that existed before the build, other than the ones of
  \<^verbatim>\<open>data\<close> and \<^verbatim>\<open>plot_env\<close>, holds what it held: the build works on the copy.
\<close>

theorem plot_build_frame:
  assumes "\<forall>(k, a) \<in> set self. a < nxt w"
  shows "\<exists>w1 plot. deepcopy self w = (w1, Inr plot)
           \<and> list_all2 (\<lambda>(k, a) (k', a'). k' = k \<and>
                 (if k \<in> shallow then a' = a else nxt w \<le> a' \<and> heap w1 a' = heap w a)) self plot
           \<and> (\<forall>a < nxt w. heap w1 a = heap w a)
           \<and> (\<forall>w' r. plot_build c self w = (w', r) \<longrightarrow>
                (\<forall>a < nxt w. a \<notin> snd ` {(k, a) \<in> set self. k \<in> shallow} \<longrightarrow>
                   heap w' a = heap w a))"
proof -
  from deepcopy_spec[OF assms] obtain w1 plot where
    d: "deepcopy self w = (w1, Inr plot)" "nxt w \<le> nxt w1" "\<forall>a < nxt w. heap w1 a = heap w a"
    "list_all2 (copied (nxt w) w w1) self plot" by blast
  have rel: "list_all2 (\<lambda>(k, a) (k', a'). k' = k \<and>
                 (if k \<in> shallow then a' = a else nxt w \<le> a' \<and> heap w1 a' = heap w a)) self plot"
    using d(4) by (rule list_all2_mono) (auto simp: copied_def)
  have cells: "a \<notin> snd ` set plot"
    if "a < nxt w" "a \<notin> snd ` {(k, a) \<in> set self. k \<in> shallow}" for a
  proof
    assume "a \<in> snd ` set plot"
    then obtain k where "(k, a) \<in> set plot" by auto
    then obtain i where i: "i < length plot" "plot ! i = (k, a)"
      by (auto simp: in_set_conv_nth)
    from d(4) i have "copied (nxt w) w w1 (self ! i) (k, a)" "i < length self"
      by (auto simp: list_all2_conv_all_nth)
    with that show False
      by (cases "self ! i") (force simp: copied_def split: if_splits dest: nth_mem)
  qed
  have frame: "heap w' a = heap w a"
    if run: "plot_build c self w = (w', r)" and a: "a < nxt w"
      "a \<notin> snd ` {(k, a) \<in> set self. k \<in> shallow}" for w' r a
  proof (cases "plot_build c self w = bnd (deepcopy self) (build_pipeline c) w")
    case True
    with run d(1) have "w' = w1 \<or> (\<exists>x. build_pipeline c plot w1 = (w', r))"
      by (auto simp: bnd_def)
    then show ?thesis
    proof
      assume "w' = w1"
      with d(3) a show ?thesis by simp
    next
      assume "\<exists>x::unit. build_pipeline c plot w1 = (w', r)"
      with frames_build_pipeline[of plot c] cells[OF a] have "heap w' a = heap w1 a"
        by (auto simp: frames_def)
      with d(3) a show ?thesis by simp
    qed
  next
    case False
    with run have "w' = w"
      by (auto simp: plot_build_def bnd_def getattr_def attr_def throw_def ret_def deref_def
          lift_def split: option.splits sum.splits if_splits prod.splits)
    then show ?thesis by simp
  qed
  from d(1,3) rel frame show ?thesis by blast
qed

lemma example_build_heap:
  "heap (fst (plot_build example_collab example_plot example_world)) 14 = Object 17
   \<and> heap example_world 7 = Object 15
   \<and> map_of (snd (snd (projr (snd (plot_build example_collab example_plot example_world)))))
        ''scales'' = Some 14"
  by code_simp

theorem plot_build_frame_witness:
  "heap (fst (plot_build example_collab example_plot example_world)) 7 = Object 15
   \<and> heap (fst (plot_build example_collab example_plot example_world)) 5 = Layers example_layers
   \<and> heap (fst (plot_build example_collab example_plot example_world)) 14 = Object 17
   \<and> heap example_world 7 = Object 15"
proof -
  have wf: "\<forall>(k, a) \<in> set example_plot. a < nxt example_world"
    by (simp add: example_plot_def example_world_def)
  have run: "plot_build example_collab example_plot example_world =
      (fst (plot_build example_collab example_plot example_world),
       snd (plot_build example_collab example_plot example_world))"
    by simp
  have old: "(7::nat) < nxt example_world" "(5::nat) < nxt example_world"
    by (simp_all add: example_world_def)
  have ns: "7 \<notin> snd ` {(k, a) \<in> set example_plot. k \<in> shallow}"
    "5 \<notin> snd ` {(k, a) \<in> set example_plot. k \<in> shallow}"
    by (auto simp: example_plot_def shallow_def)
  from plot_build_frame [OF wf, of example_collab] run old ns
  have "heap (fst (plot_build example_collab example_plot example_world)) 7 = heap example_world 7"
    "heap (fst (plot_build example_collab example_plot example_world)) 5 = heap example_world 5"
    by blast+
  with example_build_heap show ?thesis
    by (simp add: example_world_def)
qed

section \<open>Runs of the pipeline\<close>

lemma attr_run: "attr d k w = (w', Inr a) \<Longrightarrow> w' = w \<and> map_of d k = Some a"
  by (auto simp: attr_def throw_def ret_def split: option.splits)

lemma deref_run: "deref a w = (w', Inr v) \<Longrightarrow> w' = w \<and> v = heap w a"
  by (auto simp: deref_def)

lemma lift_run: "lift x w = (w', Inr v) \<Longrightarrow> w' = w \<and> x = Inr v"
  by (auto simp: lift_def)

lemma invoke_run:
  "invoke e as g w = (w', Inr r) \<Longrightarrow> trace w' = trace w @ [e] \<and> nxt w' = nxt w"
  by (auto simp: invoke_def Let_def split: sum.splits)

lemma for_each_run:
  assumes body: "\<And>i x w w' r. f i x w = (w', Inr r) \<Longrightarrow> trace w' = trace w @ [E i] \<and> nxt w' = nxt w"
  shows "for_each f i0 xs w = (w', Inr out)
    \<Longrightarrow> trace w' = trace w @ map E [i0 ..< i0 + length xs] \<and> length out = length xs
      \<and> nxt w' = nxt w"
proof (induction xs arbitrary: i0 w out)
  case Nil
  then show ?case by (simp add: ret_def)
next
  case (Cons x xs)
  from Cons.prems have "bnd (f i0 x) (\<lambda>r. bnd (for_each f (Suc i0) xs) (\<lambda>rs. ret (r # rs))) w
      = (w', Inr out)"
    by (simp only: for_each.simps)
  then obtain w1 r1 w2 rs1 where
    h: "f i0 x w = (w1, Inr r1)" and rest: "for_each f (Suc i0) xs w1 = (w2, Inr rs1)"
    and fin: "ret (r1 # rs1) w2 = (w', Inr out)"
    unfolding bnd_Inr by blast
  from fin have w2: "w2 = w'" "out = r1 # rs1" by (auto simp: ret_def)
  from rest w2 have "for_each f (Suc i0) xs w1 = (w', Inr rs1)" by simp
  from Cons.IH[OF this] body[OF h] w2 show ?case
    by (simp add: upt_conv_Cons del: upt_Suc)
qed

lemma dlapply_run:
  assumes body: "\<And>i l d w w' r. f i l d w = (w', Inr r) \<Longrightarrow> trace w' = trace w @ [E i] \<and> nxt w' = nxt w"
  shows "dlapply layers f dat w = (w', Inr out)
    \<Longrightarrow> trace w' = trace w @ map E [0 ..< length dat] \<and> length out = length dat \<and> nxt w' = nxt w"
  unfolding dlapply_def
  by (drule for_each_run[where E=E, rotated])
     (auto simp: throw_def dest: body split: sum.splits if_splits)

lemma for_each_invoke_run:
  "for_each (\<lambda>i d. invoke (E i) as (g i d)) i0 xs w = (w', Inr out)
    \<Longrightarrow> trace w' = trace w @ map E [i0 ..< i0 + length xs] \<and> length out = length xs
      \<and> nxt w' = nxt w"
  by (erule for_each_run[rotated]) (rule invoke_run)

lemma dlapply_invoke_run:
  "dlapply layers (\<lambda>i l d. invoke (E i) as (g i l d)) dat w = (w', Inr out)
    \<Longrightarrow> trace w' = trace w @ map E [0 ..< length dat] \<and> length out = length dat \<and> nxt w' = nxt w"
  by (erule dlapply_run[rotated]) (rule invoke_run)

lemma layout_stage_run:
  assumes "layout_stage c plot layers pdata layer_dat all_data w = (w', Inr (panel, dat))"
  shows "trace w' = trace w @ [TrainLayout, MapLayout] \<and> nxt w' = nxt w
     \<and> (\<exists>vs vs' lay dv. map_layout c vs (lay, layer_dat, dv) = Inr (vs', dat))"
  using assms
  by (auto simp: layout_stage_def Let_def ret_def split: option.splits sum.splits prod.splits)

lemma aesthetics_stage_run:
  assumes "aesthetics_stage c plot layers scales dat w = (w', Inr out)"
  shows "trace w' = trace w @ map ComputeAesthetics [0 ..< length dat]
            @ map AddGroup [0 ..< length dat] @ map TransformDf [0 ..< length dat]
     \<and> nxt w' = nxt w \<and> length out = length dat"
proof -
  from assms obtain w1 d1 w2 d2 where
    1: "dlapply layers (\<lambda>i l d. invoke (ComputeAesthetics i) (map snd plot)
              (\<lambda>vs. compute_aesthetics c vs (i, l, d))) dat w = (w1, Inr d1)"
    and 2: "for_each (\<lambda>i d. invoke (AddGroup i) [] (\<lambda>vs. add_group c vs d)) 0 d1 w1 = (w2, Inr d2)"
    and 3: "for_each (\<lambda>i d. invoke (TransformDf i) [scales] (\<lambda>vs. transform_df c vs d)) 0 d2 w2
             = (w', Inr out)"
    unfolding aesthetics_stage_def bnd_Inr by blast
  from dlapply_invoke_run[OF 1] for_each_invoke_run[OF 2] for_each_invoke_run[OF 3]
  show ?thesis by simp
qed

lemma position_stage_run:
  assumes "position_stage c scales p panel dat w = (w', Inr (panel', out))"
  shows "trace w' = trace w @ [GetScales ''x'' (2 * p - 1), GetScales ''y'' (2 * p - 1),
            TrainPosition p, GetScales ''x'' (2 * p), GetScales ''y'' (2 * p), MapPosition p]
     \<and> nxt w' = nxt w
     \<and> (\<exists>vs vs' panel1 sx sy. map_position c vs (panel1, dat, sx, sy) = Inr (vs', panel', out))"
  using assms
  apply (clarsimp simp: position_stage_def invoke_def Let_def split: sum.splits prod.splits)
  apply blast
  done

lemma statistics_stage_run:
  assumes "statistics_stage c plot layers scales panel dat w = (w', Inr (panel', out))"
  shows "\<exists>d1. trace w' = trace w @ [CalculateStats] @ map MapStatistic [0 ..< length d1]
            @ [ScalesAddMissing]
     \<and> nxt w' = nxt w \<and> length out = length d1
     \<and> (\<exists>vs vs' ls p1. calculate_stats c vs (panel, dat, ls) = Inr (vs', p1, d1))"
proof -
  from assms obtain wa lv wb ls wc pd wd d2 we u where
    a: "deref layers w = (wa, Inr lv)" and b: "lift (as_layers lv) wa = (wb, Inr ls)"
    and 1: "invoke CalculateStats [scales, layers]
              (\<lambda>vs. calculate_stats c vs (panel, dat, ls)) wb = (wc, Inr pd)"
    and 2: "dlapply layers (\<lambda>i l d. invoke (MapStatistic i) (map snd plot)
              (\<lambda>vs. map_statistic c vs (i, l, d))) (snd pd) wc = (wd, Inr d2)"
    and 3: "invoke ScalesAddMissing (map snd plot)
              (\<lambda>vs. scales_add_missing c vs [''x'', ''y'']) wd = (we, Inr u)"
    and 4: "ret (fst pd, d2) we = (w', Inr (panel', out))"
    unfolding statistics_stage_def bnd_Inr split_beta by blast
  from a b have wb: "wb = w" by (simp add: deref_def lift_def)
  from 1 obtain vs vs' where cs: "calculate_stats c vs (panel, dat, ls) = Inr (vs', pd)"
    by (auto simp: invoke_def Let_def split: sum.splits)
  from 4 have we: "we = w'" "out = d2" by (auto simp: ret_def)
  from invoke_run[OF 1] dlapply_invoke_run[OF 2] invoke_run[OF 3] wb we cs
  show ?thesis
    by (intro exI[of _ "snd pd"]) (cases pd, auto)
qed

lemma geometry_stage_run:
  assumes "geometry_stage c layers dat w = (w', Inr out)"
  shows "trace w' = trace w @ map Reparameterise [0 ..< length dat]
            @ map AdjustPosition [0 ..< length dat]
     \<and> nxt w' = nxt w \<and> length out = length dat"
proof -
  from assms obtain w1 d1 where
    1: "dlapply layers (\<lambda>i l d. invoke (Reparameterise i) [layers]
              (\<lambda>vs. reparameterise c vs (i, l, d))) dat w = (w1, Inr d1)"
    and 2: "dlapply layers (\<lambda>i l d. invoke (AdjustPosition i) [layers]
              (\<lambda>vs. adjust_position c vs (i, l, d))) d1 w1 = (w', Inr out)"
    unfolding geometry_stage_def bnd_Inr by blast
  from dlapply_invoke_run[OF 1] dlapply_invoke_run[OF 2]
  show ?thesis by simp
qed

lemma non_position_stage_run:
  assumes "non_position_stage c scales dat w = (w', Inr out)"
  shows "\<exists>b. trace w' = trace w @ [NonPositionScales]
            @ (if b then map TrainDf [0 ..< length dat] @ map MapDf [0 ..< length dat] else [])
     \<and> nxt w' = nxt w \<and> length out = length dat"
proof -
  from assms obtain w1 np wl n where
    0: "invoke NonPositionScales [scales] (\<lambda>vs. non_position_scales c vs ()) w = (w1, Inr np)"
    and l: "lift (case obj_len c np of None \<Rightarrow> Inl TypeError | Some n \<Rightarrow> Inr n) w1 = (wl, Inr n)"
    and br: "(if n \<noteq> 0
     then bnd (for_each (\<lambda>i d. invoke (TrainDf i) [scales]
                   (\<lambda>vs. train_df c vs (np, d))) 0 dat) (\<lambda>dat.
          for_each (\<lambda>i d. invoke (MapDf i) [scales]
                   (\<lambda>vs. map_df c vs (np, d))) 0 dat)
     else ret dat) wl = (w', Inr out)"
    unfolding non_position_stage_def bnd_Inr by blast
  from l have wl: "wl = w1" by (simp add: lift_def)
  note 1 = invoke_run[OF 0]
  note 2 = br[unfolded wl]
  show ?thesis
  proof (cases "n = 0")
    case True
    with 1 2 show ?thesis by (intro exI[of _ False]) (simp add: ret_def)
  next
    case False
    with 2 obtain w2 d2 where
      a: "for_each (\<lambda>i d. invoke (TrainDf i) [scales] (\<lambda>vs. train_df c vs (np, d))) 0 dat w1
            = (w2, Inr d2)"
      and b: "for_each (\<lambda>i d. invoke (MapDf i) [scales] (\<lambda>vs. map_df c vs (np, d))) 0 d2 w2
            = (w', Inr out)"
      by (auto simp: bnd_Inr)
    from for_each_invoke_run[OF a] for_each_invoke_run[OF b] 1
    show ?thesis by (intro exI[of _ True]) simp
  qed
qed


lemma build_pipeline_run:
  assumes run: "build_pipeline c plot w = (w', Inr (dat, panel, plot'))"
    and la: "map_of plot ''layers'' = Some la" and ls: "heap w la = Layers ls"
  shows "plot' = plot \<and> nxt w' = nxt w
     \<and> (\<exists>k1 k3 k4 nps. trace w' = trace w @ pipeline_trace k1 k3 k4 nps
           \<and> length dat = k4 \<and> length_chain c (length ls) k1 k3 k4)"
proof -
  from run obtain w1 layers w2 lv w3 ls' w4 pdata w5 dv w6 scales
    w7 pd1 w8 d2 w9 pd3 w10 pd4 w11 d5 w12 p6 w13 pd7 w14 d8 w15 p9 where
    s: "attr plot ''layers'' w = (w1, Inr layers)" "deref layers w1 = (w2, Inr lv)"
       "lift (as_layers lv) w2 = (w3, Inr ls')" "attr plot ''data'' w3 = (w4, Inr pdata)"
       "deref pdata w4 = (w5, Inr dv)" "attr plot ''scales'' w5 = (w6, Inr scales)"
    and 1: "layout_stage c plot layers pdata (map layer_data ls')
              (dv # map frame_val (map layer_data ls')) w6 = (w7, Inr pd1)"
    and 2: "aesthetics_stage c plot layers scales (snd pd1) w7 = (w8, Inr d2)"
    and 3: "position_stage c scales 1 (fst pd1) d2 w8 = (w9, Inr pd3)"
    and 4: "statistics_stage c plot layers scales (fst pd3) (snd pd3) w9 = (w10, Inr pd4)"
    and 5: "geometry_stage c layers (snd pd4) w10 = (w11, Inr d5)"
    and 6: "invoke ResetScales [scales] (\<lambda>vs. reset_scales c vs (fst pd4)) w11 = (w12, Inr p6)"
    and 7: "position_stage c scales 2 p6 d5 w12 = (w13, Inr pd7)"
    and 8: "non_position_stage c scales (snd pd7) w13 = (w14, Inr d8)"
    and 9: "invoke TrainRanges [scales] (\<lambda>vs. train_ranges c vs (fst pd7)) w14 = (w15, Inr p9)"
    and 10: "ret (d8, p9, plot) w15 = (w', Inr (dat, panel, plot'))"
    unfolding build_pipeline_def Let_def bnd_Inr split_beta
    by (elim exE conjE) (rule that, assumption+)
  from s la ls have w6: "w6 = w" and ls': "ls' = ls"
    by (auto dest!: attr_run deref_run lift_run)
  from 10 have fin: "w15 = w'" "dat = d8" "plot' = plot" by (auto simp: ret_def)
  obtain p1 d1 where pd1: "pd1 = (p1, d1)" by (cases pd1)
  obtain p3 d3 where pd3: "pd3 = (p3, d3)" by (cases pd3)
  obtain p4 d4 where pd4: "pd4 = (p4, d4)" by (cases pd4)
  obtain p7 d7 where pd7: "pd7 = (p7, d7)" by (cases pd7)
  note r1 = layout_stage_run[OF 1[unfolded pd1]]
  note r2 = aesthetics_stage_run[OF 2[unfolded pd1 snd_conv]]
  note r3 = position_stage_run[OF 3[unfolded pd1 pd3 fst_conv]]
  note r4 = statistics_stage_run[OF 4[unfolded pd3 pd4 fst_conv snd_conv]]
  note r5 = geometry_stage_run[OF 5[unfolded pd4 snd_conv]]
  note r6 = invoke_run[OF 6]
  note r7 = position_stage_run[OF 7[unfolded pd7]]
  note r8 = non_position_stage_run[OF 8[unfolded pd7 snd_conv]]
  note r9 = invoke_run[OF 9]
  from r4 obtain e3 where e3: "trace w10 = trace w9 @ [CalculateStats]
       @ map MapStatistic [0 ..< length e3] @ [ScalesAddMissing]" "nxt w10 = nxt w9"
    "length d4 = length e3"
    "\<exists>vs vs' ls p1. calculate_stats c vs (p3, d3, ls) = Inr (vs', p1, e3)"
    by blast
  from r8 obtain nps where e8: "trace w14 = trace w13 @ [NonPositionScales]
       @ (if nps then map TrainDf [0 ..< length d7] @ map MapDf [0 ..< length d7] else [])"
    "nxt w14 = nxt w13" "length d8 = length d7"
    by blast
  have chain: "length_chain c (length ls) (length d1) (length e3) (length d7)"
    unfolding length_chain_def
  proof (intro conjI)
    from r1 show "\<exists>vs vs' lay ld dv d1'. map_layout c vs (lay, ld, dv) = Inr (vs', d1')
        \<and> length ld = length ls \<and> length d1' = length d1"
      by (simp add: ls') (metis length_map)
    from r3 e3(4) r2 show "\<exists>vs vs' p x sx sy p' d2'.
        map_position c vs (p, x, sx, sy) = Inr (vs', p', d2') \<and> length x = length d1
        \<and> (\<exists>vs vs' ls p1 d3'. calculate_stats c vs (p', d2', ls) = Inr (vs', p1, d3')
              \<and> length d3' = length e3)"
      by simp metis
    from r7 r5 e3(3) show "\<exists>vs vs' p x sx sy p' d4'.
        map_position c vs (p, x, sx, sy) = Inr (vs', p', d4')
        \<and> length x = length e3 \<and> length d4' = length d7"
      by simp metis
  qed
  have tr: "trace w' = trace w @ pipeline_trace (length d1) (length e3) (length d7) nps"
    using r1 r2 r3 e3 r5 r6 r7 e8 r9 fin w6
    by (simp add: pipeline_trace_def pd1 pd4 numeral_2_eq_2 numeral_3_eq_3)
  have nx: "nxt w' = nxt w"
    using r1 r2 r3 e3 r5 r6 r7 e8 r9 fin w6 by simp
  from tr nx chain fin e8(3) show ?thesis by blast
qed

section \<open>Stages in order\<close>

lemma staged_ret: "lo \<le> hi \<Longrightarrow> staged lo hi (ret x)"
  by (simp add: staged_def ret_def)

lemma staged_throw: "lo \<le> hi \<Longrightarrow> staged lo hi (throw e)"
  by (simp add: staged_def throw_def)

lemma staged_lift: "lo \<le> hi \<Longrightarrow> staged lo hi (lift x)"
  by (simp add: staged_def lift_def)

lemma staged_deref: "lo \<le> hi \<Longrightarrow> staged lo hi (deref a)"
  by (simp add: staged_def deref_def)

lemma staged_attr: "lo \<le> hi \<Longrightarrow> staged lo hi (attr d k)"
  by (simp add: attr_def staged_ret staged_throw split: option.splits)

lemma staged_invoke: "lo \<le> stage e \<Longrightarrow> stage e \<le> hi \<Longrightarrow> staged lo hi (invoke e as g)"
  by (auto simp: staged_def invoke_def Let_def split: sum.splits)

lemma staged_bnd:
  assumes "staged lo mid m" and "\<And>x. staged mid hi (f x)"
  shows "staged lo hi (bnd m f)"
  unfolding staged_def
proof (intro conjI allI impI)
  from assms(1) assms(2) show "lo \<le> hi" unfolding staged_def by (meson order_trans)
next
  fix w w' r
  assume run: "bnd m f w = (w', r)"
  have le: "lo \<le> mid" "mid \<le> hi"
    using assms(1) assms(2) unfolding staged_def by blast+
  obtain w1 r1 where m: "m w = (w1, r1)" by (cases "m w")
  from assms(1) m obtain e1 where 1: "trace w1 = trace w @ e1" "sorted (map stage e1)"
    "\<forall>e \<in> set e1. lo \<le> stage e \<and> stage e \<le> mid"
    unfolding staged_def by blast
  show "\<exists>evs. trace w' = trace w @ evs \<and> sorted (map stage evs)
        \<and> (\<forall>e \<in> set evs. lo \<le> stage e \<and> stage e \<le> hi)"
  proof (cases r1)
    case (Inl e)
    with run m have "w' = w1" by (simp add: bnd_def)
    with 1 le show ?thesis by (intro exI[of _ e1]) auto
  next
    case (Inr x)
    with run m have "f x w1 = (w', r)" by (simp add: bnd_def)
    with assms(2)[of x] obtain e2 where 2: "trace w' = trace w1 @ e2" "sorted (map stage e2)"
      "\<forall>e \<in> set e2. mid \<le> stage e \<and> stage e \<le> hi"
      unfolding staged_def by blast
    from 1 2 le show ?thesis
      by (intro exI[of _ "e1 @ e2"]) (fastforce simp: sorted_append)
  qed
qed

lemma staged_attr_bnd: "(\<And>x. staged lo hi (f x)) \<Longrightarrow> staged lo hi (bnd (attr d k) f)"
  by (rule staged_bnd[where mid=lo]) (auto intro: staged_attr)

lemma staged_deref_bnd: "(\<And>x. staged lo hi (f x)) \<Longrightarrow> staged lo hi (bnd (deref a) f)"
  by (rule staged_bnd[where mid=lo]) (auto intro: staged_deref)

lemma staged_lift_bnd: "(\<And>x. staged lo hi (f x)) \<Longrightarrow> staged lo hi (bnd (lift a) f)"
  by (rule staged_bnd[where mid=lo]) (auto intro: staged_lift)

lemma staged_invoke_bnd:
  "lo \<le> stage e \<Longrightarrow> (\<And>x. staged (stage e) hi (f x)) \<Longrightarrow> staged lo hi (bnd (invoke e as g) f)"
  by (rule staged_bnd[where mid="stage e"]) (auto intro: staged_invoke)

lemma staged_for_each:
  assumes "\<And>i x. staged s s (f i x)"
  shows "staged s s (for_each f i xs)"
  by (induction xs arbitrary: i) (auto intro!: staged_ret staged_bnd[where mid=s] assms)

lemma staged_dlapply:
  assumes "\<And>i l d. staged s s (f i l d)"
  shows "staged s s (dlapply layers f dat)"
  unfolding dlapply_def
  by (intro staged_for_each staged_deref_bnd staged_lift_bnd)
     (auto intro: assms staged_throw)

lemma staged_weaken: "staged lo hi m \<Longrightarrow> lo' \<le> lo \<Longrightarrow> hi \<le> hi' \<Longrightarrow> staged lo' hi' m"
  unfolding staged_def by (meson order_trans)

lemma staged_prod: "(\<And>a b. staged lo hi (f a b)) \<Longrightarrow> staged lo hi (case x of (a, b) \<Rightarrow> f a b)"
  by (cases x) simp

lemma staged_layout_stage: "staged 1 2 (layout_stage c plot layers pdata layer_dat all_data)"
  unfolding layout_stage_def Let_def
  by (intro staged_attr_bnd staged_deref_bnd staged_invoke_bnd staged_ret) simp_all

lemma staged_aesthetics_stage: "staged 3 5 (aesthetics_stage c plot layers scales dat)"
  unfolding aesthetics_stage_def
  apply (rule staged_bnd[where mid=3])
   apply (rule staged_dlapply, rule staged_invoke; simp)
  apply (rule staged_bnd[where mid=4])
   apply (rule staged_weaken[where lo=4 and hi=4])
     apply (rule staged_for_each, rule staged_invoke; simp)
    apply simp
   apply simp
  apply (rule staged_weaken[where lo=5 and hi=5])
    apply (rule staged_for_each, rule staged_invoke; simp)
   apply simp
  apply simp
  done

lemma staged_position_stage_1: "staged 6 9 (position_stage c scales 1 panel dat)"
  unfolding position_stage_def
  by (intro staged_invoke_bnd staged_invoke) simp_all

lemma staged_position_stage_2: "staged 16 19 (position_stage c scales 2 panel dat)"
  unfolding position_stage_def
  by (intro staged_invoke_bnd staged_invoke) simp_all

lemma staged_statistics_stage: "staged 10 12 (statistics_stage c plot layers scales panel dat)"
  unfolding statistics_stage_def
  apply (intro staged_deref_bnd staged_lift_bnd staged_invoke_bnd staged_prod; simp?)
  apply (rule staged_bnd[where mid=11])
   apply (rule staged_weaken[where lo=11 and hi=11])
     apply (rule staged_dlapply, rule staged_invoke; simp)
    apply simp
   apply simp
  apply (intro staged_invoke_bnd staged_ret; simp)
  done

lemma staged_geometry_stage: "staged 13 14 (geometry_stage c layers dat)"
  unfolding geometry_stage_def
  apply (rule staged_bnd[where mid=13])
   apply (rule staged_dlapply, rule staged_invoke; simp)
  apply (rule staged_weaken[where lo=14 and hi=14])
    apply (rule staged_dlapply, rule staged_invoke; simp)
   apply simp
  apply simp
  done

lemma staged_non_position_stage: "staged 20 22 (non_position_stage c scales dat)"
  unfolding non_position_stage_def
  apply (intro staged_invoke_bnd staged_lift_bnd; simp?)
  apply (rule conjI; clarify)
   apply (rule staged_bnd[where mid=21])
    apply (rule staged_weaken[where lo=21 and hi=21])
      apply (rule staged_for_each, rule staged_invoke; simp)
     apply simp
    apply simp
   apply (rule staged_weaken[where lo=22 and hi=22])
     apply (rule staged_for_each, rule staged_invoke; simp)
    apply simp
   apply simp
  apply (rule staged_ret, simp)
  done

lemma staged_build_pipeline: "staged 1 23 (build_pipeline c plot)"
  unfolding build_pipeline_def Let_def
  apply (intro staged_attr_bnd staged_deref_bnd staged_lift_bnd)
  apply (rule staged_bnd[where mid=2], rule staged_layout_stage, rule staged_prod)
  apply (rule staged_bnd[where mid=5], rule staged_weaken[OF staged_aesthetics_stage], simp, simp)
  apply (rule staged_bnd[where mid=9], rule staged_weaken[OF staged_position_stage_1], simp, simp,
      rule staged_prod)
  apply (rule staged_bnd[where mid=12], rule staged_weaken[OF staged_statistics_stage], simp, simp,
      rule staged_prod)
  apply (rule staged_bnd[where mid=14], rule staged_weaken[OF staged_geometry_stage], simp, simp)
  apply (rule staged_invoke_bnd, simp)
  apply (rule staged_bnd[where mid=19], rule staged_weaken[OF staged_position_stage_2], simp, simp,
      rule staged_prod)
  apply (rule staged_bnd[where mid=22], rule staged_weaken[OF staged_non_position_stage], simp, simp)
  apply (intro staged_invoke_bnd staged_ret; simp)
  done

lemma staged_deepcopy_items: "staged 0 0 (deepcopy_items d memo)"
proof (induction d arbitrary: memo)
  case Nil
  then show ?case by (simp add: staged_ret)
next
  case (Cons x d)
  obtain key item where x: "x = (key, item)" by (cases x)
  have cell: "staged 0 0 (deepcopy_cell item memo)"
    by (auto simp: deepcopy_cell_def staged_def ret_def bnd_def deref_def alloc_def
        split: option.splits)
  show ?case
    unfolding x deepcopy_items.simps
    by (auto intro!: staged_bnd[where mid=0] Cons.IH staged_ret cell staged_prod)
qed

lemma staged_if: "staged lo hi a \<Longrightarrow> staged lo hi b \<Longrightarrow> staged lo hi (if c then a else b)"
  by simp

lemma staged_plot_build: "staged 0 23 (plot_build c self)"
  unfolding plot_build_def getattr_def deepcopy_def
  apply (rule staged_bnd[where mid=0])
   apply (rule staged_bnd[where mid=0], rule staged_attr, simp, rule staged_deref, simp)
  apply (rule staged_lift_bnd)
  apply (rule staged_if)
   apply (rule staged_throw, simp)
  apply (rule staged_bnd[where mid=0])
   apply (rule staged_bnd[where mid=0])
    apply (simp add: staged_def emit_def)
   apply (rule staged_deepcopy_items)
  apply (rule staged_weaken[OF staged_build_pipeline]; simp)
  done

section \<open>The build\<close>

lemma length_chain_eq:
  assumes "keeps_length c" and "length_chain c n k1 k3 k4"
  shows "k1 = n \<and> k3 = n \<and> k4 = n"
  using assms unfolding keeps_length_def length_chain_def
  by (elim conjE exE) (metis (no_types))

lemma deepcopy_items_trace: "deepcopy_items d memo w = (w', r) \<Longrightarrow> trace w' = trace w"
proof (induction d arbitrary: memo w r)
  case Nil
  then show ?case by (simp add: ret_def)
next
  case (Cons x d)
  obtain key item where x: "x = (key, item)" by (cases x)
  from Cons.prems show ?case
    by (auto simp: x bnd_def ret_def deepcopy_cell_def deref_def alloc_def
        split: if_splits option.splits prod.splits sum.splits dest!: Cons.IH)
qed

lemma plot_build_Inr:
  assumes "plot_build c self w = (w', Inr res)"
  shows "\<exists>a w1 plot. map_of self ''layers'' = Some a \<and> truthy c (heap w a) = Inr True
     \<and> deepcopy self w = (w1, Inr plot) \<and> trace w1 = trace w @ [Deepcopy]
     \<and> build_pipeline c plot w1 = (w', Inr res)"
proof -
  from assms obtain a where a: "map_of self ''layers'' = Some a"
    and t: "truthy c (heap w a) = Inr True"
    and r: "bnd (deepcopy self) (build_pipeline c) w = (w', Inr res)"
    by (auto simp: plot_build_def throw_def split: option.splits sum.splits if_splits)
  from r obtain w1 plot where d: "deepcopy self w = (w1, Inr plot)"
    and p: "build_pipeline c plot w1 = (w', Inr res)"
    by (auto simp: bnd_Inr)
  from d have "trace w1 = trace w @ [Deepcopy]"
    by (auto simp: deepcopy_def dest: deepcopy_items_trace)
  with a t d p show ?thesis by blast
qed

lemma build_pipeline_layers:
  assumes "build_pipeline c plot w = (w', Inr res)"
  shows "\<exists>la ls. map_of plot ''layers'' = Some la \<and> heap w la = Layers ls"
  using assms
  by (auto simp: build_pipeline_def Let_def split: option.splits sum.splits elim!: as_layers.elims)

text \<open>
  C5. In every run of \<^verbatim>\<open>plot_build\<close>, completed or not, the calls come in the order of the
  stages: \<^verbatim>\<open>scales_add_missing\<close> after \<^verbatim>\<open>calculate_stats\<close> and every \<^verbatim>\<open>map_statistic\<close> and
  before every \<^verbatim>\<open>reparameterise\<close>, every \<^verbatim>\<open>adjust_position\<close> after every
  \<^verbatim>\<open>reparameterise\<close>, then \<^verbatim>\<open>reset_scales\<close>, the second \<^verbatim>\<open>train_position\<close> and
  \<^verbatim>\<open>map_position\<close>, and only then the non-position scales and \<^verbatim>\<open>train_ranges\<close>. The trace
  of a run that completes is the deep copy followed by all the stages, none left out.
\<close>

theorem plot_build_stage_order:
  "(\<exists>evs. trace (fst (plot_build c self w)) = trace w @ evs \<and> sorted (map stage evs))
   \<and> (\<forall>w' res. plot_build c self w = (w', Inr res) \<longrightarrow>
        (\<exists>k1 k3 k4 nps. trace w' = trace w @ Deepcopy # pipeline_trace k1 k3 k4 nps))"
proof (intro conjI allI impI)
  obtain w' r where run: "plot_build c self w = (w', r)"
    by (cases "plot_build c self w")
  with staged_plot_build[of c self] obtain evs where
    "trace w' = trace w @ evs" "sorted (map stage evs)"
    unfolding staged_def by blast
  with run show "\<exists>evs. trace (fst (plot_build c self w)) = trace w @ evs \<and> sorted (map stage evs)"
    by simp
next
  fix w' res
  assume run: "plot_build c self w = (w', Inr res)"
  from plot_build_Inr[OF run] obtain w1 plot where
    t: "trace w1 = trace w @ [Deepcopy]" and p: "build_pipeline c plot w1 = (w', Inr res)"
    by blast
  from build_pipeline_layers[OF p] obtain la ls where
    la: "map_of plot ''layers'' = Some la" "heap w1 la = Layers ls" by blast
  obtain dat panel plot' where res: "res = (dat, panel, plot')" by (cases res)
  from build_pipeline_run[OF p[unfolded res] la] obtain k1 k3 k4 nps where
    "trace w' = trace w1 @ pipeline_trace k1 k3 k4 nps" by blast
  with t have "trace w' = trace w @ Deepcopy # pipeline_trace k1 k3 k4 nps" by simp
  then show "\<exists>k1 k3 k4 nps. trace w' = trace w @ Deepcopy # pipeline_trace k1 k3 k4 nps"
    by blast
qed

subsection \<open>The build returns\<close>

lemma total_ret: "Q x \<Longrightarrow> total I (ret x) Q"
  by (simp add: total_def ret_def)

lemma total_bnd:
  assumes "total I m P" and "\<And>x. P x \<Longrightarrow> total I (f x) Q"
  shows "total I (bnd m f) Q"
  unfolding total_def
proof (intro allI impI)
  fix w assume "I w"
  with assms(1) obtain w1 x where m: "m w = (w1, Inr x)" "I w1" "P x"
    unfolding total_def by blast
  from assms(2)[OF m(3)] m(2) obtain w' r where "f x w1 = (w', Inr r)" "I w'" "Q r"
    unfolding total_def by blast
  with m(1) show "\<exists>w' r. bnd m f w = (w', Inr r) \<and> I w' \<and> Q r"
    by (simp add: bnd_def)
qed

lemma total_weaken: "total I m P \<Longrightarrow> (\<And>x. P x \<Longrightarrow> Q x) \<Longrightarrow> total I m Q"
  unfolding total_def by blast

lemma total_attr: "map_of d k = Some a \<Longrightarrow> total I (attr d k) (\<lambda>x. x = a)"
  by (simp add: total_def attr_def ret_def)

lemma total_deref: "total I (deref a) (\<lambda>_. True)"
  by (simp add: total_def deref_def)

lemma total_layers:
  fixes f :: "'o layer list \<Rightarrow> ('o, 'r) prog"
  assumes "\<And>ls. length ls = n \<Longrightarrow> total (has_layers la n) (f ls) Q"
  shows "total (has_layers la n) (bnd (deref la) (\<lambda>lv. bnd (lift (as_layers lv)) f)) Q"
  unfolding total_def
proof (intro allI impI)
  fix w :: "'o world" assume I: "has_layers la n w"
  then obtain ls where ls: "heap w la = Layers ls" "length ls = n"
    by (auto simp: has_layers_def)
  from assms[OF ls(2)] I obtain w' r where "f ls w = (w', Inr r)" "has_layers la n w'" "Q r"
    unfolding total_def by blast
  with ls show "\<exists>w' r. bnd (deref la) (\<lambda>lv. bnd (lift (as_layers lv)) f) w = (w', Inr r)
       \<and> has_layers la n w' \<and> Q r"
    by (simp add: bnd_def deref_def lift_def)
qed

lemma write_cells_last:
  "length vs = length as \<Longrightarrow> a \<in> set as
    \<Longrightarrow> \<exists>j < length as. as ! j = a \<and> write_cells as vs h a = vs ! j"
proof (induction as arbitrary: vs h)
  case Nil
  then show ?case by simp
next
  case (Cons a0 as)
  then obtain v0 vs' where vs: "vs = v0 # vs'" "length vs' = length as"
    by (cases vs) auto
  show ?case
  proof (cases "a \<in> set as")
    case True
    from Cons.IH[OF vs(2) True, of "h(a0 := v0)"] obtain j where
      "j < length as" "as ! j = a" "write_cells as vs' (h(a0 := v0)) a = vs' ! j" by blast
    then show ?thesis by (intro exI[of _ "Suc j"]) (simp add: vs)
  next
    case False
    with Cons.prems(2) have "a = a0" by simp
    with False show ?thesis
      by (intro exI[of _ 0]) (simp add: vs write_cells_other)
  qed
qed

lemma has_layers_write:
  assumes "has_layers la n w" and "keeps_layers (map (heap w) as) vs"
  shows "has_layers la n (w\<lparr>trace := t, heap := write_cells as vs (heap w)\<rparr>)"
proof (cases "la \<in> set as")
  case False
  with assms(1) show ?thesis by (simp add: has_layers_def write_cells_other)
next
  case True
  from assms(2) have len: "length vs = length as" by (simp add: keeps_layers_def)
  from write_cells_last[OF len True, of "heap w"] obtain j where
    j: "j < length as" "as ! j = la" "write_cells as vs (heap w) la = vs ! j" by blast
  from assms(1) obtain ls where "heap w la = Layers ls" "length ls = n"
    by (auto simp: has_layers_def)
  with assms(2) j show ?thesis
    by (auto simp: keeps_layers_def has_layers_def)
qed

lemma total_invoke:
  fixes f :: "('o, 'a, 'r) call"
  assumes "answers f" and "\<And>vs vs' r. f vs a = Inr (vs', r) \<Longrightarrow> Q r"
  shows "total (has_layers la n) (invoke e as (\<lambda>vs. f vs a)) Q"
  unfolding total_def
proof (intro allI impI)
  fix w :: "'o world" assume I: "has_layers la n w"
  from assms(1) obtain vs' r where f: "f (map (heap w) as) a = Inr (vs', r)"
    "keeps_layers (map (heap w) as) vs'"
    unfolding answers_def by blast
  from has_layers_write[OF I f(2)] assms(2)[OF f(1)] f(1)
  show "\<exists>w' r. invoke e as (\<lambda>vs. f vs a) w = (w', Inr r) \<and> has_layers la n w' \<and> Q r"
    by (simp add: invoke_def Let_def)
qed

lemma total_for_each:
  assumes "\<And>i x. total I (f i x) (\<lambda>_. True)"
  shows "total I (for_each f i xs) (\<lambda>out. length out = length xs)"
proof (induction xs arbitrary: i)
  case Nil
  show ?case by (simp add: total_ret)
next
  case (Cons x xs)
  show ?case
    unfolding for_each.simps
    by (rule total_bnd[OF assms], rule total_bnd[OF Cons.IH], rule total_ret) simp
qed

lemma total_dlapply_loop:
  fixes f :: "nat \<Rightarrow> 'o layer \<Rightarrow> dataframe \<Rightarrow> ('o, 'r) prog"
  assumes "\<And>i l d. total (has_layers la n) (f i l d) (\<lambda>_. True)"
  shows "i + length xs \<le> n \<Longrightarrow>
    total (has_layers la n)
      (for_each (\<lambda>i d. bnd (deref la) (\<lambda>lv. bnd (lift (as_layers lv)) (\<lambda>ls.
          if i < length ls then f i (ls ! i) d else throw IndexError))) i xs)
      (\<lambda>out. length out = length xs)"
proof (induction xs arbitrary: i)
  case Nil
  show ?case by (simp add: total_ret)
next
  case (Cons x xs)
  have step: "total (has_layers la n)
      (bnd (deref la) (\<lambda>lv. bnd (lift (as_layers lv)) (\<lambda>ls.
          if i < length ls then f i (ls ! i) x else throw IndexError))) (\<lambda>_. True)"
    using Cons.prems by (intro total_layers) (simp add: assms)
  from Cons.prems have "Suc i + length xs \<le> n" by simp
  note ih = Cons.IH[OF this]
  show ?case
    unfolding for_each.simps
    by (rule total_bnd[OF step], rule total_bnd[OF ih], rule total_ret) simp
qed

lemma total_dlapply:
  fixes f :: "nat \<Rightarrow> 'o layer \<Rightarrow> dataframe \<Rightarrow> ('o, dataframe) prog"
  assumes "\<And>i l d. total (has_layers la n) (f i l d) (\<lambda>_. True)" and "length dat \<le> n"
  shows "total (has_layers la n) (dlapply la f dat) (\<lambda>out. length out = length dat)"
  unfolding dlapply_def
  using total_dlapply_loop[of la n f 0 dat, OF assms(1)] assms(2) by simp


lemma total_attr_bnd:
  "map_of d k = Some a \<Longrightarrow> total I (f a) Q \<Longrightarrow> total I (bnd (attr d k) f) Q"
  by (rule total_bnd[OF total_attr]) auto

lemma total_deref_bnd: "(\<And>v. total I (f v) Q) \<Longrightarrow> total I (bnd (deref a) f) Q"
  by (rule total_bnd[OF total_deref]) auto

lemma total_invoke_bnd:
  fixes g :: "('o, 'a, 'r) call"
  assumes "answers g"
    and "\<And>vs vs' r. g vs a = Inr (vs', r) \<Longrightarrow> total (has_layers la n) (f r) Q"
  shows "total (has_layers la n) (bnd (invoke e as (\<lambda>vs. g vs a)) f) Q"
  by (rule total_bnd[OF total_invoke[OF assms(1), where Q="\<lambda>r. \<exists>vs vs'. g vs a = Inr (vs', r)"]])
     (auto intro: assms(2))

lemma total_loop:
  fixes g :: "('o, 'a, 'r) call"
  assumes "answers g"
  shows "total (has_layers la n) (for_each (\<lambda>i d. invoke (E i) as (\<lambda>vs. g vs (h d))) i0 xs)
           (\<lambda>out. length out = length xs)"
  by (rule total_for_each) (rule total_invoke[OF assms], simp)

lemma total_layer_loop:
  fixes g :: "('o, nat \<times> 'o layer \<times> dataframe, dataframe) call"
  assumes "answers g" and "length dat \<le> n"
  shows "total (has_layers la n)
           (dlapply la (\<lambda>i l d. invoke (E i) as (\<lambda>vs. g vs (i, l, d))) dat)
           (\<lambda>out. length out = length dat)"
  by (rule total_dlapply[OF _ assms(2)]) (rule total_invoke[OF assms(1)], simp)

lemma total_layout_stage:
  assumes co: "cooperative c" and kl: "keeps_length c"
    and fa: "map_of plot ''facet'' = Some fa" and pd: "map_of plot ''data'' = Some pd"
  shows "total (has_layers la n) (layout_stage c plot la pdata ld ad)
           (\<lambda>(panel, dat). length dat = length ld)"
proof -
  from co have a: "answers (train_layout c)" "answers (map_layout c)"
    by (simp_all add: cooperative_def)
  show ?thesis
    unfolding layout_stage_def Let_def
    apply (rule total_attr_bnd[OF fa])
    apply (rule total_invoke_bnd[where g="train_layout c", OF a(1)])
    apply (rule total_attr_bnd[OF fa])
    apply (rule total_attr_bnd[OF pd])
    apply (rule total_deref_bnd)
    apply (rule total_invoke_bnd[where g="map_layout c", OF a(2)])
    apply (rule total_ret)
    using kl apply (auto simp: keeps_length_def)
    done
qed

lemma total_aesthetics_stage:
  assumes co: "cooperative c" and len: "length dat \<le> n"
  shows "total (has_layers la n) (aesthetics_stage c plot la scales dat)
           (\<lambda>out. length out = length dat)"
proof -
  from co have a: "answers (compute_aesthetics c)" "answers (add_group c)"
    "answers (transform_df c)"
    by (simp_all add: cooperative_def)
  show ?thesis
    unfolding aesthetics_stage_def
    apply (rule total_bnd[OF total_layer_loop[where g="compute_aesthetics c", OF a(1) len]])
    apply (rule total_bnd[OF total_loop[where g="add_group c" and h="\<lambda>d. d", OF a(2)]])
    apply (rule total_weaken[OF total_loop[where g="transform_df c" and h="\<lambda>d. d", OF a(3)]])
    apply simp
    done
qed

lemma total_position_stage:
  assumes co: "cooperative c" and kl: "keeps_length c"
  shows "total (has_layers la n) (position_stage c scales p panel dat)
           (\<lambda>(panel', out). length out = length dat)"
proof -
  from co have a: "answers (get_scales c)" "answers (train_position c)"
    "answers (map_position c)"
    by (simp_all add: cooperative_def)
  show ?thesis
    unfolding position_stage_def
    apply (rule total_invoke_bnd[where g="get_scales c", OF a(1)])
    apply (rule total_invoke_bnd[where g="get_scales c", OF a(1)])
    apply (rule total_invoke_bnd[where g="train_position c", OF a(2)])
    apply (rule total_invoke_bnd[where g="get_scales c", OF a(1)])
    apply (rule total_invoke_bnd[where g="get_scales c", OF a(1)])
    apply (rule total_invoke[where f="map_position c", OF a(3)])
    using kl apply (auto simp: keeps_length_def)
    done
qed

lemma total_statistics_stage:
  assumes co: "cooperative c" and kl: "keeps_length c" and len: "length dat \<le> n"
  shows "total (has_layers la n) (statistics_stage c plot la scales panel dat)
           (\<lambda>(panel', out). length out = length dat)"
proof -
  from co have a: "answers (calculate_stats c)" "answers (map_statistic c)"
    "answers (scales_add_missing c)"
    by (simp_all add: cooperative_def)
  have stats: "length out = length dat"
    if "calculate_stats c vs (panel, dat, ls) = Inr (vs', p', out)" for vs ls vs' p' out
    using kl that unfolding keeps_length_def by blast
  show ?thesis
    unfolding statistics_stage_def
    apply (rule total_layers)
    apply (rule total_invoke_bnd[where g="calculate_stats c", OF a(1)])
    apply (clarsimp)
    apply (frule stats)
    apply (rule total_bnd[OF total_layer_loop[where g="map_statistic c", OF a(2)]])
    using len apply simp
    apply (rule total_invoke_bnd[where g="scales_add_missing c", OF a(3)])
    apply (rule total_ret)
    apply simp
    done
qed

lemma total_geometry_stage:
  assumes co: "cooperative c" and len: "length dat \<le> n"
  shows "total (has_layers la n) (geometry_stage c la dat) (\<lambda>out. length out = length dat)"
proof -
  from co have a: "answers (reparameterise c)" "answers (adjust_position c)"
    by (simp_all add: cooperative_def)
  show ?thesis
    unfolding geometry_stage_def
    apply (rule total_bnd[OF total_layer_loop[where g="reparameterise c", OF a(1) len]])
    apply (rule total_weaken[OF total_layer_loop[where g="adjust_position c", OF a(2)]])
     apply (simp add: len)
    apply simp
    done
qed

lemma total_non_position_stage:
  assumes co: "cooperative c"
  shows "total (has_layers la n) (non_position_stage c scales dat)
           (\<lambda>out. length out = length dat)"
proof -
  from co have a: "answers (non_position_scales c)" "answers (train_df c)" "answers (map_df c)"
    and len: "\<And>ob. obj_len c ob \<noteq> None"
    by (simp_all add: cooperative_def)
  have tail: "total (has_layers la n)
     (if k \<noteq> 0
      then bnd (for_each (\<lambda>i d. invoke (TrainDf i) [scales]
                   (\<lambda>vs. train_df c vs (np, d))) 0 dat) (\<lambda>dat.
           for_each (\<lambda>i d. invoke (MapDf i) [scales]
                   (\<lambda>vs. map_df c vs (np, d))) 0 dat)
      else ret dat) (\<lambda>out. length out = length dat)" for k :: nat and np
  proof (cases "k = 0")
    case True
    then show ?thesis by (simp add: total_ret)
  next
    case False
    then show ?thesis
      apply simp
      apply (rule total_bnd[OF total_loop[where g="train_df c" and h="\<lambda>d. (np, d)", OF a(2)]])
      apply (rule total_weaken[OF total_loop[where g="map_df c" and h="\<lambda>d. (np, d)", OF a(3)]])
      apply simp
      done
  qed
  show ?thesis
    unfolding non_position_stage_def
    apply (rule total_invoke_bnd[where g="non_position_scales c", OF a(1)])
    subgoal for vs vs' np
      using len[of np] tail[of _ np]
      by (cases "obj_len c np") (auto simp: total_def)
    done
qed


lemma total_build_pipeline:
  fixes c :: "'o collab"
  assumes co: "cooperative c" and kl: "keeps_length c"
    and la: "map_of plot ''layers'' = Some la" and pd: "map_of plot ''data'' = Some pd"
    and sc: "map_of plot ''scales'' = Some sc" and fa: "map_of plot ''facet'' = Some fa"
  shows "total (has_layers la n) (build_pipeline c plot)
           (\<lambda>(dat, panel, plot'). length dat = n \<and> plot' = plot)"
proof -
  from co have a: "answers (reset_scales c)" "answers (train_ranges c)"
    by (simp_all add: cooperative_def)
  show ?thesis
    unfolding build_pipeline_def Let_def
    apply (rule total_attr_bnd[OF la])
    apply (rule total_layers)
    apply (rule total_attr_bnd[OF pd])
    apply (rule total_deref_bnd)
    apply (rule total_attr_bnd[OF sc])
    apply (rule total_bnd[OF total_layout_stage[OF co kl fa pd]])
    apply (simp only: split_paired_all prod.case length_map)
    apply (rule total_bnd[OF total_aesthetics_stage[OF co]])
     apply simp
    apply (rule total_bnd[OF total_position_stage[OF co kl]])
    apply (simp only: split_paired_all prod.case)
    apply (rule total_bnd[OF total_statistics_stage[OF co kl]])
     apply simp
    apply (simp only: split_paired_all prod.case)
    apply (rule total_bnd[OF total_geometry_stage[OF co]])
     apply simp
    apply (rule total_invoke_bnd[where g="reset_scales c", OF a(1)])
    apply (rule total_bnd[OF total_position_stage[OF co kl]])
    apply (simp only: split_paired_all prod.case)
    apply (rule total_bnd[OF total_non_position_stage[OF co]])
    apply (rule total_invoke_bnd[where g="train_ranges c", OF a(2)])
    apply (rule total_ret)
    apply simp
    done
qed

lemma plot_build_total:
  fixes c :: "'o collab"
  assumes co: "cooperative c" and kl: "keeps_length c"
    and wf: "\<forall>(k, a) \<in> set self. a < nxt w"
    and la: "map_of self ''layers'' = Some la" "heap w la = Layers ls" and ne: "ls \<noteq> []"
    and pd: "map_of self ''data'' = Some pd"
    and sc: "map_of self ''scales'' = Some sc" and fa: "map_of self ''facet'' = Some fa"
  shows "\<exists>w' dat panel plot. plot_build c self w = (w', Inr (dat, panel, plot))
           \<and> length dat = length ls"
proof -
  from deepcopy_spec[OF wf] obtain w1 plot where d: "deepcopy self w = (w1, Inr plot)"
    and cp: "list_all2 (copied (nxt w) w w1) self plot" by blast
  from copied_map_of[OF cp la(1)] obtain la' where
    m: "map_of plot ''layers'' = Some la'"
    and c: "copied (nxt w) w w1 (''layers'', la) (''layers'', la')" by blast
  from c la(2) have h: "has_layers la' (length ls) w1"
    by (simp add: copied_def shallow_def has_layers_def)
  from copied_map_of[OF cp pd] obtain pd' where pd': "map_of plot ''data'' = Some pd'" by blast
  from copied_map_of[OF cp sc] obtain sc' where sc': "map_of plot ''scales'' = Some sc'" by blast
  from copied_map_of[OF cp fa] obtain fa' where fa': "map_of plot ''facet'' = Some fa'" by blast
  from total_build_pipeline[OF co kl m pd' sc' fa', of "length ls"] h
  obtain w' r where p: "build_pipeline c plot w1 = (w', Inr r)"
    and q: "case r of (dat, panel, plot') \<Rightarrow> length dat = length ls \<and> plot' = plot"
    unfolding total_def by blast
  obtain dat panel plot' where r: "r = (dat, panel, plot')" by (cases r)
  from d p have "bnd (deepcopy self) (build_pipeline c) w = (w', Inr r)"
    by (simp add: bnd_def)
  with la ne have "plot_build c self w = (w', Inr r)"
    by (simp add: plot_build_def)
  with q r show ?thesis by auto
qed

text \<open>
  C2. For a plot whose \<^verbatim>\<open>layers\<close> is a list of \<open>n\<close> layers, with collaborators that keep the
  number of datasets: what \<^verbatim>\<open>plot_build\<close> returns is a triple of \<open>n\<close> datasets, the panel,
  and the object that \<^verbatim>\<open>deepcopy(self)\<close> returned, and \<open>n\<close> is at least one; and when \<open>n\<close> is
  at least one, the plot has its \<^verbatim>\<open>data\<close>, \<^verbatim>\<open>scales\<close> and \<^verbatim>\<open>facet\<close> attributes and no
  collaborator raises, \<^verbatim>\<open>plot_build\<close> does return.
\<close>

theorem plot_build_returns:
  assumes kl: "keeps_length c" and wf: "\<forall>(k, a) \<in> set self. a < nxt w"
    and la: "map_of self ''layers'' = Some la" "heap w la = Layers ls"
  shows "(\<forall>w' dat panel plot. plot_build c self w = (w', Inr (dat, panel, plot))
            \<longrightarrow> ls \<noteq> [] \<and> length dat = length ls
              \<and> (\<exists>w1. deepcopy self w = (w1, Inr plot)))
       \<and> (cooperative c \<and> ls \<noteq> [] \<and> map_of self ''data'' \<noteq> None
            \<and> map_of self ''scales'' \<noteq> None \<and> map_of self ''facet'' \<noteq> None
            \<longrightarrow> (\<exists>w' dat panel plot. plot_build c self w = (w', Inr (dat, panel, plot))))"
proof (intro conjI allI impI)
  fix w' dat panel plot
  assume run: "plot_build c self w = (w', Inr (dat, panel, plot))"
  from plot_build_Inr[OF run] obtain a w1 plot0 where
    a: "map_of self ''layers'' = Some a" and t: "truthy c (heap w a) = Inr True"
    and d: "deepcopy self w = (w1, Inr plot0)"
    and p: "build_pipeline c plot0 w1 = (w', Inr (dat, panel, plot))"
    by blast
  from a la have "a = la" by simp
  with t la show ne: "ls \<noteq> []" by simp
  from deepcopy_spec[OF wf] d have cp: "list_all2 (copied (nxt w) w w1) self plot0"
    by auto
  from copied_map_of[OF cp la(1)] obtain la' where
    m: "map_of plot0 ''layers'' = Some la'" and c: "copied (nxt w) w w1 (''layers'', la) (''layers'', la')"
    by blast
  from c la(2) have h: "heap w1 la' = Layers ls"
    by (simp add: copied_def shallow_def)
  from build_pipeline_run[OF p m h] obtain k1 k3 k4 where
    r: "plot = plot0" "length dat = k4" "length_chain c (length ls) k1 k3 k4" by blast
  from length_chain_eq[OF kl r(3)] r(2) show "length dat = length ls" by simp
  from d r(1) show "\<exists>w1. deepcopy self w = (w1, Inr plot)" by blast
next
  assume h: "cooperative c \<and> ls \<noteq> [] \<and> map_of self ''data'' \<noteq> None
            \<and> map_of self ''scales'' \<noteq> None \<and> map_of self ''facet'' \<noteq> None"
  then obtain pd sc fa where at: "map_of self ''data'' = Some pd"
    "map_of self ''scales'' = Some sc" "map_of self ''facet'' = Some fa" by auto
  from h have co: "cooperative c" and ne: "ls \<noteq> []" by simp_all
  from plot_build_total[OF co kl wf la ne at]
  show "\<exists>w' dat panel plot. plot_build c self w = (w', Inr (dat, panel, plot))" by blast
qed

lemma example_build:
  "plot_build example_collab example_plot example_world =
     (fst (plot_build example_collab example_plot example_world),
      Inr ([example_data, example_layer_data], example_panel,
        [(''data'', 2), (''mapping'', 9), (''facet'', 10), (''labels'', 11), (''layers'', 12),
         (''guides'', 13), (''scales'', 14), (''theme'', 15), (''plot_env'', 1)]))"
proof -
  have "snd (plot_build example_collab example_plot example_world) =
      Inr ([example_data, example_layer_data], example_panel,
        [(''data'', 2), (''mapping'', 9), (''facet'', 10), (''labels'', 11), (''layers'', 12),
         (''guides'', 13), (''scales'', 14), (''theme'', 15), (''plot_env'', 1)])"
    by code_simp
  then show ?thesis by (cases "plot_build example_collab example_plot example_world") simp
qed

lemma keeps_length_example: "keeps_length example_collab"
  by (auto simp: keeps_length_def example_collab_def)

lemma cooperative_example: "cooperative example_collab"
  unfolding cooperative_def
  by (simp add: answers_def example_collab_def keeps_layers_def case_prod_beta)

theorem plot_build_returns_witness:
  "keeps_length example_collab \<and> cooperative example_collab
   \<and> heap example_world 5 = Layers example_layers \<and> example_layers \<noteq> []
   \<and> snd (plot_build example_collab example_plot example_world) =
       Inr ([example_data, example_layer_data], example_panel,
        [(''data'', 2), (''mapping'', 9), (''facet'', 10), (''labels'', 11), (''layers'', 12),
         (''guides'', 13), (''scales'', 14), (''theme'', 15), (''plot_env'', 1)])
   \<and> length [example_data, example_layer_data] = length example_layers
   \<and> snd (deepcopy example_plot example_world) =
       Inr [(''data'', 2), (''mapping'', 9), (''facet'', 10), (''labels'', 11), (''layers'', 12),
         (''guides'', 13), (''scales'', 14), (''theme'', 15), (''plot_env'', 1)]"
proof -
  have wf: "\<forall>(k, a) \<in> set example_plot. a < nxt example_world"
    by (simp add: example_plot_def example_world_def)
  have la: "map_of example_plot ''layers'' = Some 5" "heap example_world 5 = Layers example_layers"
    by (simp_all add: example_plot_def example_world_def)
  have ne: "example_layers \<noteq> []" by (simp add: example_layers_def)
  have at: "map_of example_plot ''data'' \<noteq> None" "map_of example_plot ''scales'' \<noteq> None"
    "map_of example_plot ''facet'' \<noteq> None"
    by (simp_all add: example_plot_def)
  note both = plot_build_returns [OF keeps_length_example wf la]
  from both cooperative_example ne at
  obtain w' dat panel plot where
    "plot_build example_collab example_plot example_world = (w', Inr (dat, panel, plot))"
    by blast
  with both have "length dat = length example_layers"
    and "\<exists>w1. deepcopy example_plot example_world = (w1, Inr plot)"
    by blast+
  moreover from example_build
    \<open>plot_build example_collab example_plot example_world = (w', Inr (dat, panel, plot))\<close>
  have "dat = [example_data, example_layer_data]"
    and "plot = [(''data'', 2), (''mapping'', 9), (''facet'', 10), (''labels'', 11),
         (''layers'', 12), (''guides'', 13), (''scales'', 14), (''theme'', 15), (''plot_env'', 1)]"
    by simp_all
  ultimately have "length [example_data, example_layer_data] = length example_layers"
    and "\<exists>w1. deepcopy example_plot example_world =
       (w1, Inr [(''data'', 2), (''mapping'', 9), (''facet'', 10), (''labels'', 11),
         (''layers'', 12), (''guides'', 13), (''scales'', 14), (''theme'', 15), (''plot_env'', 1)])"
    by simp_all
  with keeps_length_example cooperative_example la(2) ne example_build show ?thesis
    by (metis snd_conv)
qed

theorem plot_build_stage_order_witness:
  "trace (fst (plot_build example_collab example_plot example_world))
     = Deepcopy # pipeline_trace 2 2 2 True
   \<and> sorted (map stage (trace (fst (plot_build example_collab example_plot example_world))))"
proof -
  have t: "trace example_world = []" by (simp add: example_world_def)
  from plot_build_stage_order [of example_collab example_plot example_world] example_build t
  obtain k1 k3 k4 nps where "trace (fst (plot_build example_collab example_plot example_world))
     = Deepcopy # pipeline_trace k1 k3 k4 nps"
    and s: "sorted (map stage (trace (fst (plot_build example_collab example_plot example_world))))"
    by (metis append_Nil)
  have "trace (fst (plot_build example_collab example_plot example_world))
     = Deepcopy # pipeline_trace 2 2 2 True"
    by code_simp
  with s show ?thesis by simp
qed

section \<open>The build does not depend on where the copy lives\<close>






























section \<open>Rendering twice\<close>

























end
